theory Spec2Isabelle
  imports Complex_Main
begin

section \<open>Strings\<close>

text \<open>
  JavaScript strings are modelled as \<^typ>\<open>string\<close>. The two characters outside ASCII that
  the program writes (the em dash of an absent change and the bullet before a source) are
  kept as the three bytes of their UTF-8 encoding.
\<close>

definition em_dash :: string where
  "em_dash = [CHR 0xE2, CHR 0x80, CHR 0x94]"

definition bullet :: string where
  "bullet = [CHR 0xE2, CHR 0x80, CHR 0xA2]"

definition digit_char :: "nat \<Rightarrow> char" where
  "digit_char d = char_of (48 + d)"

text \<open>The decimal digits of a natural number, as \<open>String(n)\<close> writes an integer.\<close>

fun show_nat :: "nat \<Rightarrow> string" where
  "show_nat n = (if n < 10 then [digit_char n] else show_nat (n div 10) @ [digit_char (n mod 10)])"

declare show_nat.simps [simp del]

definition show_int :: "int \<Rightarrow> string" where
  "show_int i = (if i < 0 then ''-'' @ show_nat (nat (- i)) else show_nat (nat i))"

section \<open>Numbers\<close>

text \<open>
  A JavaScript number is a finite value, \<open>NaN\<close> or an infinity. The finite values the
  program computes with are of two kinds. Times in milliseconds and pixel widths are
  integers far below \<open>2^53\<close>, on which the operations of the program are exact.
  Percentages read from the feed are finite doubles, each of them a rational number; a sum
  or a quotient of them is the exact result rounded to a double, or an infinity.
\<close>

datatype 'a jsnum = Num 'a | NaN | PosInf | NegInf

text \<open>\<open>a - x\<close> for a finite \<open>a\<close>.\<close>

fun js_sub :: "int \<Rightarrow> int jsnum \<Rightarrow> int jsnum" where
  "js_sub a (Num b) = Num (a - b)"
| "js_sub a NaN = NaN"
| "js_sub a PosInf = NegInf"
| "js_sub a NegInf = PosInf"

text \<open>\<open>Math.max(0, x)\<close>: \<open>NaN\<close> if an argument is \<open>NaN\<close>.\<close>

fun js_max0 :: "int jsnum \<Rightarrow> int jsnum" where
  "js_max0 (Num b) = Num (max 0 b)"
| "js_max0 NaN = NaN"
| "js_max0 PosInf = PosInf"
| "js_max0 NegInf = Num 0"

text \<open>\<open>Math.floor(x / k)\<close> for a positive integer constant \<open>k\<close>.\<close>

fun js_floor_div :: "int jsnum \<Rightarrow> int \<Rightarrow> int jsnum" where
  "js_floor_div (Num a) k = Num (a div k)"
| "js_floor_div NaN k = NaN"
| "js_floor_div PosInf k = PosInf"
| "js_floor_div NegInf k = NegInf"

text \<open>\<open>x < k\<close>: every comparison with \<open>NaN\<close> is false.\<close>

fun js_lt :: "int jsnum \<Rightarrow> int \<Rightarrow> bool" where
  "js_lt (Num a) k = (a < k)"
| "js_lt NaN k = False"
| "js_lt PosInf k = False"
| "js_lt NegInf k = True"

text \<open>The string an integer-valued number concatenates as.\<close>

fun js_toString :: "int jsnum \<Rightarrow> string" where
  "js_toString (Num a) = show_int a"
| "js_toString NaN = ''NaN''"
| "js_toString PosInf = ''Infinity''"
| "js_toString NegInf = ''-Infinity''"

text \<open>
  Rounding to a double, as IEEE 754 prescribes it for an addition and a division: the
  nearest multiple of the unit in the last place of the binade, ties to the even
  significand; below the normal range the unit is that of the subnormal numbers, and a
  result that reaches \<open>2^1024\<close> is an infinity. The sign of a zero is not kept (the program
  cannot tell \<open>-0\<close> from \<open>0\<close>: both fail \<open>> 0\<close> and both print \<open>0.00\<close>).

  \<open>exponent a\<close> is the exponent of the binade of \<open>a\<close>, kept within \<open>-1022 .. 1023\<close>: the
  search starts at 1023 and stops at the first power of two that is not above \<open>a\<close>.
\<close>

fun find_exp :: "nat \<Rightarrow> int \<Rightarrow> rat \<Rightarrow> int" where
  "find_exp 0 e a = e"
| "find_exp (Suc n) e a = (if 2 powi e \<le> a then e else find_exp n (e - 1) a)"

definition exponent :: "rat \<Rightarrow> int" where
  "exponent a = find_exp 2045 1023 a"

definition round_even :: "rat \<Rightarrow> int" where
  "round_even x =
     (let f = \<lfloor>x\<rfloor>; d = x - of_int f
      in if d < 1 / 2 then f else if 1 / 2 < d then f + 1 else if even f then f else f + 1)"

definition round_double :: "rat \<Rightarrow> rat jsnum" where
  "round_double q =
     (let a = \<bar>q\<bar>;
          ulp = 2 powi (exponent a - 52);
          r = of_int (round_even (a / ulp)) * ulp
      in if 2 powi 1024 \<le> r then (if q < 0 then NegInf else PosInf)
         else Num (if q < 0 then - r else r))"

definition is_double :: "rat \<Rightarrow> bool" where
  "is_double q = (round_double q = Num q)"

section \<open>The host\<close>

text \<open>
  What the browser decides and the program only reads is a parameter of the model:
  \<^item> \<open>newDate s\<close>: the time value of \<open>new Date(s)\<close> (milliseconds since the epoch, or
    \<open>NaN\<close> for an Invalid Date), or the exception the constructor throws;
  \<^item> \<open>dateNow\<close>: the reading of \<open>Date.now()\<close> during the call;
  \<^item> \<open>numLocale\<close> and \<open>dateLocale\<close>: the two \<open>toLocaleString\<close> methods;
  \<^item> \<open>expNotation\<close>: the exponential notation \<open>toFixed\<close> falls back to from \<open>10^21\<close> on;
  \<^item> \<open>toUpperCase\<close>: the method of strings, with the case mappings of Unicode;
  \<^item> \<open>scrollWidth i\<close>: the rendered width of the \<open>i\<close>-th clone appended to the ticker;
  \<^item> \<open>pricesFirst\<close>: whether the prices request settles before the headlines request.
\<close>

datatype error = LoadFailed string | TransportError | MalformedJSON | TypeError string

record host =
  newDate :: "string \<Rightarrow> error + int jsnum"
  dateNow :: int
  numLocale :: "rat \<Rightarrow> string"
  dateLocale :: "int jsnum \<Rightarrow> string"
  expNotation :: "rat \<Rightarrow> string"
  toUpperCase :: "string \<Rightarrow> string"
  scrollWidth :: "nat \<Rightarrow> nat"
  pricesFirst :: bool

section \<open>Relative time\<close>

text \<open>
  The body of the function is a \<open>try\<close> block whose \<open>catch\<close> returns the empty string.
  The only statement of the block that can throw is the constructor call, so the \<open>catch\<close>
  is the \<open>Inl\<close> branch of \<open>newDate\<close>.
\<close>

definition fmtTimeAgo :: "host \<Rightarrow> string \<Rightarrow> string" where
  "fmtTimeAgo h dateStr =
     (case newDate h dateStr of
        Inl e \<Rightarrow> ''''
      | Inr d \<Rightarrow>
          let delta = js_max0 (js_sub (dateNow h) d);
              mins = js_floor_div delta 60000
          in if js_lt mins 1 then ''just now''
             else if js_lt mins 60 then js_toString mins @ ''m ago''
             else let hrs = js_floor_div mins 60
                  in if js_lt hrs 24 then js_toString hrs @ ''h ago''
                     else let days = js_floor_div hrs 24
                          in js_toString days @ ''d ago'')"

text \<open>
  The tier of a label, read back from its text: \<open>0\<close> for \<open>just now\<close>, \<open>1\<close>, \<open>2\<close> and
  \<open>3\<close> for a label that ends in \<open>m ago\<close>, \<open>h ago\<close> and \<open>d ago\<close>.
\<close>

definition tier :: "string \<Rightarrow> nat option" where
  "tier s =
     (if s = ''just now'' then Some 0
      else let u = rev (take 5 (rev s))
           in if u = ''m ago'' then Some 1
              else if u = ''h ago'' then Some 2
              else if u = ''d ago'' then Some 3
              else None)"

definition tier_of_minutes :: "int \<Rightarrow> nat" where
  "tier_of_minutes mins =
     (if mins < 1 then 0 else if mins < 60 then 1 else if mins div 60 < 24 then 2 else 3)"

section \<open>The document\<close>

text \<open>
  A node the program creates is an element (tag, attributes in the order they were set,
  children) or a text node. The elements the program looks up are kept in a store keyed by
  their id, each with its children and the custom properties of its inline style; the
  regions are taken to be disjoint (no looked-up element lies inside the content of
  another one that the program rewrites). \<open>tickerWrap\<close> is the \<open>clientWidth\<close> of the
  first \<open>.ticker-wrap\<close> element, \<open>None\<close> when there is none; \<open>console\<close> collects what
  \<open>console.error\<close> is given.
\<close>

datatype node = Element string "(string \<times> string) list" "node list" | TextNode string

record element =
  content :: "node list"
  style :: "string \<rightharpoonup> string"

record page =
  byId :: "string \<rightharpoonup> element"
  tickerWrap :: "nat option"
  console :: "error list"

definition createElement :: "string \<Rightarrow> node" where
  "createElement t = Element t [] []"

fun set_attr :: "string \<Rightarrow> string \<Rightarrow> (string \<times> string) list \<Rightarrow> (string \<times> string) list" where
  "set_attr k v [] = [(k, v)]"
| "set_attr k v ((k', v') # kvs) = (if k = k' then (k, v) # kvs else (k', v') # set_attr k v kvs)"

fun setAttribute :: "string \<Rightarrow> string \<Rightarrow> node \<Rightarrow> node" where
  "setAttribute k v (Element t as ns) = Element t (set_attr k v as) ns"
| "setAttribute k v (TextNode s) = TextNode s"

text \<open>Assigning \<open>textContent\<close> replaces the children by one text node, or by none for \<open>''\<close>.\<close>

definition text_nodes :: "string \<Rightarrow> node list" where
  "text_nodes s = (if s = [] then [] else [TextNode s])"

fun setTextContent :: "string \<Rightarrow> node \<Rightarrow> node" where
  "setTextContent s (Element t as ns) = Element t as (text_nodes s)"
| "setTextContent s (TextNode s') = TextNode s"

fun appendChild :: "node \<Rightarrow> node \<Rightarrow> node" where
  "appendChild (Element t as ns) c = Element t as (ns @ [c])"
| "appendChild (TextNode s) c = TextNode s"

text \<open>The same operations on an element of the store.\<close>

definition clear :: "element \<Rightarrow> element" where
  "clear el = el\<lparr>content := []\<rparr>"

definition appendTo :: "element \<Rightarrow> node \<Rightarrow> element" where
  "appendTo el c = el\<lparr>content := content el @ [c]\<rparr>"

definition setText :: "element \<Rightarrow> string \<Rightarrow> element" where
  "setText el s = el\<lparr>content := text_nodes s\<rparr>"

definition setProperty :: "element \<Rightarrow> string \<Rightarrow> string \<Rightarrow> element" where
  "setProperty el k v = el\<lparr>style := (style el)(k \<mapsto> v)\<rparr>"

definition put :: "string \<Rightarrow> element \<Rightarrow> page \<Rightarrow> page" where
  "put i el pg = pg\<lparr>byId := (byId pg)(i \<mapsto> el)\<rparr>"

section \<open>The feeds\<close>

text \<open>
  The feeds have the types of the data model: an optional field is an \<open>option\<close>
  (\<open>None\<close> for a field that is not there), a number of the price feed is a finite double,
  a rank is a natural number. A feed of another shape is outside the model: a string where
  a number is expected, a \<open>null\<close> item, a field that is \<open>null\<close> (a \<open>null\<close> price, which
  the program would print as \<open>$0\<close>, has no value here), a literal beyond the range of
  doubles (which is read as an infinity).
\<close>

record headline_item =
  link :: string
  title :: string
  source :: "string option"
  published_at :: string

record headline_feed =
  x_breaking :: "headline_item list option"
  breaking :: "headline_item list option"
  day :: "headline_item list option"
  week :: "headline_item list option"
  month :: "headline_item list option"
  generated_at :: "string option"

record price_item =
  symbol :: "string option"
  price :: "rat option"
  change24h :: "rat option"
  rank :: "nat option"

text \<open>The prices feed is a bare array, or an object with the fields \<open>prices\<close>, \<open>gainers\<close>, \<open>losers\<close>.\<close>

datatype price_feed =
  PriceArray "price_item list"
| PriceObject "price_item list option" "price_item list option" "price_item list option"

fun feed_prices :: "price_feed \<Rightarrow> price_item list option" where
  "feed_prices (PriceArray xs) = None"
| "feed_prices (PriceObject ps gs ls) = ps"

fun feed_gainers :: "price_feed \<Rightarrow> price_item list option" where
  "feed_gainers (PriceArray xs) = None"
| "feed_gainers (PriceObject ps gs ls) = gs"

fun feed_losers :: "price_feed \<Rightarrow> price_item list option" where
  "feed_losers (PriceArray xs) = None"
| "feed_losers (PriceObject ps gs ls) = ls"

text \<open>\<open>xs || []\<close>\<close>

fun or_empty :: "'a list option \<Rightarrow> 'a list" where
  "or_empty None = []"
| "or_empty (Some xs) = xs"

text \<open>\<open>s || ''\<close>\<close>

fun or_blank :: "string option \<Rightarrow> string" where
  "or_blank None = []"
| "or_blank (Some s) = s"

section \<open>The list renderer\<close>

definition list_entry :: "host \<Rightarrow> headline_item \<Rightarrow> node" where
  "list_entry h it =
     (let li = createElement ''li'';
          a = createElement ''a'';
          a = setAttribute ''href'' (link it) a;
          a = setAttribute ''target'' ''_blank'' a;
          a = setAttribute ''rel'' ''noopener'' a;
          a = setTextContent (title it) a;
          meta = createElement ''span'';
          meta = setAttribute ''class'' ''meta'' meta;
          src = (case source it of None \<Rightarrow> [] | Some s \<Rightarrow> if s = [] then [] else '' '' @ bullet @ '' '' @ s);
          meta = setTextContent (fmtTimeAgo h (published_at it) @ src) meta;
          li = appendChild li a;
          li = appendChild li meta
      in li)"

definition renderList :: "host \<Rightarrow> string \<Rightarrow> headline_item list option \<Rightarrow> page \<Rightarrow> page" where
  "renderList h i items pg =
     (case byId pg i of
        None \<Rightarrow> pg
      | Some el \<Rightarrow> put i (foldl (\<lambda>el it. appendTo el (list_entry h it)) (clear el) (or_empty items)) pg)"

section \<open>The ticker\<close>

definition ticker_span :: "host \<Rightarrow> price_item \<Rightarrow> node" where
  "ticker_span h p =
     (let span = createElement ''span'';
          sym = toUpperCase h (or_blank (symbol p));
          rnk = (case rank p of None \<Rightarrow> [] | Some r \<Rightarrow> if r = 0 then [] else ''#'' @ show_nat r);
          prc = (case price p of None \<Rightarrow> [] | Some x \<Rightarrow> ''$'' @ numLocale h x)
      in setTextContent (rnk @ '' '' @ sym @ '' '' @ prc) span)"

definition one_run :: "host \<Rightarrow> price_item list \<Rightarrow> node" where
  "one_run h prices =
     (let oneRun = createElement ''div'';
          oneRun = setAttribute ''class'' ''ticker-track'' oneRun
      in foldl (\<lambda>oneRun p. appendChild oneRun (ticker_span h p)) oneRun prices)"

text \<open>\<open>a || b\<close> on widths: \<open>0\<close> is the only falsy one.\<close>

definition js_or :: "nat \<Rightarrow> nat \<Rightarrow> nat" where
  "js_or a b = (if a = 0 then b else a)"

text \<open>
  The cloning loop. Widths are natural numbers, as \<open>clientWidth\<close> and \<open>scrollWidth\<close>
  are; the clone appended when the track has \<open>i\<close> children is measured as
  \<open>scrollWidth h i\<close>. The loop is defined without any assumption that it ends: not
  returning is the value \<open>None\<close>.
\<close>

partial_function (option) clone_loop ::
  "host \<Rightarrow> nat \<Rightarrow> node \<Rightarrow> element \<Rightarrow> nat \<Rightarrow> (element \<times> nat) option" where
  "clone_loop h containerW oneRun tick totalW =
     (if totalW < containerW * 2
      then clone_loop h containerW oneRun (appendTo tick oneRun)
             (totalW + js_or (scrollWidth h (length (content tick))) containerW)
      else Some (tick, totalW))"

declare clone_loop.simps [code]

text \<open>
  The argument is an array at every call (the callers pass \<open>[]\<close> for anything else), so
  of the test \<open>!Array.isArray(prices) || !prices.length\<close> the model keeps the second half.
  \<open>Math.round(totalW / 100)\<close> rounds a half up, which on a natural number is
  \<open>(totalW + 50) div 100\<close>.
\<close>

definition setupTicker :: "host \<Rightarrow> price_item list \<Rightarrow> page \<Rightarrow> page option" where
  "setupTicker h prices pg =
     (case tickerWrap pg of
        None \<Rightarrow> Some pg
      | Some clientWidth \<Rightarrow>
          (case byId pg ''ticker'' of
             None \<Rightarrow> Some pg
           | Some tick \<Rightarrow>
               let tick = clear tick
               in if prices = [] then Some (put ''ticker'' tick pg)
                  else let oneRun = one_run h prices;
                           containerW = js_or clientWidth 800
                       in case clone_loop h containerW oneRun tick 0 of
                            None \<Rightarrow> None
                          | Some (tick, totalW) \<Rightarrow>
                              let duration = max 20 ((totalW + 50) div 100)
                              in Some (put ''ticker''
                                         (setProperty tick ''--ticker-duration'' (show_nat duration @ ''s''))
                                         pg)))"

section \<open>The market tables\<close>

text \<open>
  \<open>x.toFixed(2)\<close>: the sign, then the integer \<open>n\<close> nearest to \<open>100 * |x|\<close> (the larger
  one of two) written with at least three digits and a point before the last two. From
  \<open>10^21\<close> on the method returns the exponential notation of the host.
\<close>

definition fixed2 :: "rat \<Rightarrow> string" where
  "fixed2 x =
     (let n = nat \<lfloor>x * 100 + 1 / 2\<rfloor>;
          m = show_nat n;
          m = (if length m \<le> 2 then replicate (3 - length m) (CHR ''0'') @ m else m)
      in take (length m - 2) m @ ''.'' @ drop (length m - 2) m)"

fun toFixed2 :: "host \<Rightarrow> rat jsnum \<Rightarrow> string" where
  "toFixed2 h (Num x) =
     (if x < 0 then ''-'' else []) @ (if 10 ^ 21 \<le> \<bar>x\<bar> then expNotation h \<bar>x\<bar> else fixed2 \<bar>x\<bar>)"
| "toFixed2 h NaN = ''NaN''"
| "toFixed2 h PosInf = ''Infinity''"
| "toFixed2 h NegInf = ''-Infinity''"

text \<open>
  The three tables build their rows by the same statements and differ in the class of the
  percentage cell only, which is the parameter \<open>colour\<close>.
\<close>

definition table_row :: "host \<Rightarrow> (rat \<Rightarrow> string) \<Rightarrow> price_item \<Rightarrow> node" where
  "table_row h colour c =
     (let tr = createElement ''tr'';
          nameTd = createElement ''td'';
          nameTd = setTextContent (toUpperCase h (or_blank (symbol c))) nameTd;
          priceTd = createElement ''td'';
          priceTd = setTextContent (case price c of None \<Rightarrow> [] | Some x \<Rightarrow> ''$'' @ numLocale h x) priceTd;
          changeTd = createElement ''td'';
          changeTd = (case change24h c of
                        Some change \<Rightarrow>
                          setAttribute ''class'' (colour change)
                            (setTextContent (toFixed2 h (Num change) @ ''%'') changeTd)
                      | None \<Rightarrow> setTextContent em_dash changeTd)
      in foldl appendChild tr [nameTd, priceTd, changeTd])"

definition market_row :: "host \<Rightarrow> price_item \<Rightarrow> node" where
  "market_row h = table_row h (\<lambda>change. if change \<ge> 0 then ''positive'' else ''negative'')"

definition renderMarkets :: "host \<Rightarrow> price_item list \<Rightarrow> page \<Rightarrow> page" where
  "renderMarkets h prices pg =
     (case byId pg ''market-body'' of
        None \<Rightarrow> pg
      | Some tbody \<Rightarrow>
          put ''market-body''
            (foldl (\<lambda>tbody c. appendTo tbody (market_row h c)) (clear tbody) (take 50 prices)) pg)"

text \<open>A statement ends normally or throws; what it changed before it threw stays changed.\<close>

datatype completion = Normal | Throw error

text \<open>
  \<open>a + b\<close> and \<open>a / b\<close> where the right operand is finite: a change of the feed, or a
  length, which is not negative. The exact result is rounded to a double.
\<close>

fun js_add :: "rat jsnum \<Rightarrow> rat \<Rightarrow> rat jsnum" where
  "js_add (Num a) b = round_double (a + b)"
| "js_add NaN b = NaN"
| "js_add PosInf b = PosInf"
| "js_add NegInf b = NegInf"

fun js_div :: "rat jsnum \<Rightarrow> rat \<Rightarrow> rat jsnum" where
  "js_div (Num a) b =
     (if b = 0 then (if a = 0 then NaN else if 0 < a then PosInf else NegInf)
      else round_double (a / b))"
| "js_div NaN b = NaN"
| "js_div PosInf b = PosInf"
| "js_div NegInf b = NegInf"

fun js_gt0 :: "rat jsnum \<Rightarrow> bool" where
  "js_gt0 (Num a) = (a > 0)"
| "js_gt0 NaN = False"
| "js_gt0 PosInf = True"
| "js_gt0 NegInf = False"

definition avg_change :: "price_item list \<Rightarrow> rat jsnum" where
  "avg_change ps =
     js_div (foldl (\<lambda>sum p. js_add sum (case change24h p of None \<Rightarrow> 0 | Some c \<Rightarrow> c)) (Num 0) ps)
            (of_nat (length ps))"

text \<open>
  The sum and the mean of a list of numbers are computed without rounding: every partial
  sum and the quotient are doubles already.
\<close>

definition exact_mean :: "rat list \<Rightarrow> bool" where
  "exact_mean xs =
     (list_all (\<lambda>k. is_double (sum_list (take k xs))) [0..<Suc (length xs)]
      \<and> is_double (sum_list xs / of_nat (length xs)))"

definition sentiment_text :: "host \<Rightarrow> price_item list \<Rightarrow> string" where
  "sentiment_text h ps =
     (let avgChange = avg_change ps;
          sentiment = (if js_gt0 avgChange then ''Bullish'' else ''Bearish'')
      in ''Market Sentiment: '' @ sentiment @ '' (Avg 24h Change: '' @ toFixed2 h avgChange @ ''%)'')"

definition renderGainersLosers :: "host \<Rightarrow> price_feed \<Rightarrow> page \<Rightarrow> completion \<times> page" where
  "renderGainersLosers h prices pg =
     (case (byId pg ''gainers-body'', byId pg ''losers-body'') of
        (Some gainersBody, Some losersBody) \<Rightarrow>
          let gainersBody = foldl (\<lambda>tbody c. appendTo tbody (table_row h (\<lambda>change. ''positive'') c))
                              (clear gainersBody) (take 15 (or_empty (feed_gainers prices)));
              pg = put ''gainers-body'' gainersBody pg;
              losersBody = foldl (\<lambda>tbody c. appendTo tbody (table_row h (\<lambda>change. ''negative'') c))
                             (clear losersBody) (take 15 (or_empty (feed_losers prices)));
              pg = put ''losers-body'' losersBody pg
          in (case byId pg ''sentiment-indicator'' of
                None \<Rightarrow> (Normal, pg)
              | Some sentimentEl \<Rightarrow>
                  (case feed_prices prices of
                     None \<Rightarrow> (Throw (TypeError ''prices.prices is undefined''), pg)
                   | Some ps \<Rightarrow>
                       (Normal, put ''sentiment-indicator'' (setText sentimentEl (sentiment_text h ps)) pg)))
      | _ \<Rightarrow> (Normal, pg))"

definition setLastUpdated :: "host \<Rightarrow> string option \<Rightarrow> page \<Rightarrow> completion \<times> page" where
  "setLastUpdated h isoStr pg =
     (case byId pg ''lastUpdated'' of
        None \<Rightarrow> (Normal, pg)
      | Some el \<Rightarrow>
          if or_blank isoStr = [] then (Normal, pg)
          else (case newDate h (or_blank isoStr) of
                  Inl e \<Rightarrow> (Throw e, pg)
                | Inr d \<Rightarrow> (Normal, put ''lastUpdated'' (setText el (''Last updated '' @ dateLocale h d)) pg)))"

section \<open>The refresh cycle\<close>

text \<open>
  What a request comes back with: no response at all, or a response with its \<open>ok\<close> flag
  and its body read as JSON (\<open>None\<close> when the body is not JSON).
\<close>

datatype 'a fetched = NoResponse | Response bool "'a option"

fun loadJSON :: "string \<Rightarrow> 'a fetched \<Rightarrow> error + 'a" where
  "loadJSON path NoResponse = Inl TransportError"
| "loadJSON path (Response ok body) =
     (if \<not> ok then Inl (LoadFailed (''Failed to load '' @ path))
      else case body of None \<Rightarrow> Inl MalformedJSON | Some v \<Rightarrow> Inr v)"

text \<open>A request fails by a transport error, a status that is not OK, or a body that is not JSON.\<close>

fun fetch_failed :: "'a fetched \<Rightarrow> bool" where
  "fetch_failed NoResponse = True"
| "fetch_failed (Response ok body) = (\<not> ok \<or> body = None)"

text \<open>\<open>Promise.all\<close> of two promises: both values, or the reason of the one that rejects first.\<close>

fun promise_all :: "bool \<Rightarrow> error + 'a \<Rightarrow> error + 'b \<Rightarrow> error + 'a \<times> 'b" where
  "promise_all secondFirst (Inr a) (Inr b) = Inr (a, b)"
| "promise_all secondFirst (Inl e) (Inr b) = Inl e"
| "promise_all secondFirst (Inr a) (Inl e) = Inl e"
| "promise_all secondFirst (Inl e) (Inl e') = Inl (if secondFirst then e' else e)"

text \<open>The five lists, in the order the cycle renders them.\<close>

definition renderLists :: "host \<Rightarrow> headline_feed \<Rightarrow> page \<Rightarrow> page" where
  "renderLists h headlines pg =
     (let pg = renderList h ''x_breaking'' (Some (or_empty (x_breaking headlines))) pg;
          pg = renderList h ''breaking'' (Some (or_empty (breaking headlines))) pg;
          pg = renderList h ''day'' (Some (or_empty (day headlines))) pg;
          pg = renderList h ''week'' (Some (or_empty (week headlines))) pg;
          pg = renderList h ''month'' (Some (or_empty (month headlines))) pg
      in pg)"

text \<open>The body of the \<open>try\<close> block of the first variant (one flat market table).\<close>

definition refresh_try :: "host \<Rightarrow> headline_feed fetched \<Rightarrow> price_feed fetched \<Rightarrow> page \<Rightarrow> (completion \<times> page) option" where
  "refresh_try h fh fp pg =
     (case promise_all (pricesFirst h) (loadJSON ''data/headlines.json'' fh) (loadJSON ''data/prices.json'' fp) of
        Inl e \<Rightarrow> Some (Throw e, pg)
      | Inr (headlines, prices) \<Rightarrow>
          let pg = renderLists h headlines pg;
              arr = (case prices of PriceArray ps \<Rightarrow> ps | PriceObject ps gs ls \<Rightarrow> [])
          in case setupTicker h arr pg of
               None \<Rightarrow> None
             | Some pg \<Rightarrow> Some (setLastUpdated h (generated_at headlines) (renderMarkets h arr pg)))"

text \<open>\<open>try { ... } catch (e) { console.error('Refresh failed:', e); }\<close>\<close>

definition catch_log :: "(completion \<times> page) option \<Rightarrow> (completion \<times> page) option" where
  "catch_log r =
     (case r of
        None \<Rightarrow> None
      | Some (Normal, pg) \<Rightarrow> Some (Normal, pg)
      | Some (Throw e, pg) \<Rightarrow> Some (Normal, pg\<lparr>console := console pg @ [e]\<rparr>))"

definition refreshAll :: "host \<Rightarrow> headline_feed fetched \<Rightarrow> price_feed fetched \<Rightarrow> page \<Rightarrow> (completion \<times> page) option" where
  "refreshAll h fh fp pg = catch_log (refresh_try h fh fp pg)"

text \<open>The second variant (gainers, losers and the sentiment line).\<close>

definition refresh_try_split :: "host \<Rightarrow> headline_feed fetched \<Rightarrow> price_feed fetched \<Rightarrow> page \<Rightarrow> (completion \<times> page) option" where
  "refresh_try_split h fh fp pg =
     (case promise_all (pricesFirst h) (loadJSON ''data/headlines.json'' fh) (loadJSON ''data/prices.json'' fp) of
        Inl e \<Rightarrow> Some (Throw e, pg)
      | Inr (headlines, prices) \<Rightarrow>
          let pg = renderLists h headlines pg
          in case setupTicker h (or_empty (feed_prices prices)) pg of
               None \<Rightarrow> None
             | Some pg \<Rightarrow>
                 (case renderGainersLosers h prices pg of
                    (Throw e, pg) \<Rightarrow> Some (Throw e, pg)
                  | (Normal, pg) \<Rightarrow> Some (setLastUpdated h (generated_at headlines) pg)))"

definition refreshAll_split :: "host \<Rightarrow> headline_feed fetched \<Rightarrow> price_feed fetched \<Rightarrow> page \<Rightarrow> (completion \<times> page) option" where
  "refreshAll_split h fh fp pg = catch_log (refresh_try_split h fh fp pg)"

section \<open>Sample inputs\<close>

text \<open>
  A host whose clock reads \<open>now\<close>, that parses two timestamps and takes every other string
  for an Invalid Date, that writes a number as its integer part, that maps the ASCII
  letters to upper case and leaves every other character as it is, and that measures every
  clone of the ticker as 300 wide; a page with a 500 wide ticker container and old content
  in each region (it has no \<open>week\<close> list).
\<close>

definition upper_char :: "char \<Rightarrow> char" where
  "upper_char c = (let n = (of_char c :: nat) in if 97 \<le> n \<and> n \<le> 122 then char_of (n - 32) else c)"

definition ascii_upper :: "string \<Rightarrow> string" where
  "ascii_upper s = map upper_char s"

definition plain_number :: "rat \<Rightarrow> string" where
  "plain_number q = show_int \<lfloor>q\<rfloor>"

definition sample_host :: "int \<Rightarrow> host" where
  "sample_host now =
     \<lparr>newDate = (\<lambda>s. if s = ''1970-01-01T00:00:00Z'' then Inr (Num 0)
                      else if s = ''1970-01-01T00:01:00Z'' then Inr (Num 60000)
                      else Inr NaN),
      dateNow = now,
      numLocale = plain_number,
      dateLocale = js_toString,
      expNotation = plain_number,
      toUpperCase = ascii_upper,
      scrollWidth = (\<lambda>i. 300),
      pricesFirst = False\<rparr>"

definition old_content :: element where
  "old_content = \<lparr>content = [TextNode ''old''], style = Map.empty\<rparr>"

definition sample_page :: page where
  "sample_page =
     \<lparr>byId = [''ticker'' \<mapsto> old_content, ''day'' \<mapsto> old_content, ''market-body'' \<mapsto> old_content,
              ''gainers-body'' \<mapsto> old_content, ''losers-body'' \<mapsto> old_content,
              ''sentiment-indicator'' \<mapsto> old_content],
      tickerWrap = Some 500,
      console = []\<rparr>"

definition btc :: price_item where
  "btc = \<lparr>symbol = Some ''btc'', price = Some 65000, change24h = Some 1, rank = Some 1\<rparr>"

definition eth :: price_item where
  "eth = \<lparr>symbol = Some ''eth'', price = None, change24h = None, rank = None\<rparr>"

definition headline :: headline_item where
  "headline = \<lparr>link = ''https://example.org/a'', title = ''Title'', source = Some ''Desk'',
                published_at = ''1970-01-01T00:01:00Z''\<rparr>"

text \<open>Price items with the changes of the two examples of the specification.\<close>

definition up1 :: price_item where
  "up1 = \<lparr>symbol = Some ''sol'', price = Some 150, change24h = Some 1, rank = Some 5\<rparr>"

definition up3 :: price_item where
  "up3 = \<lparr>symbol = Some ''ada'', price = Some 1, change24h = Some 3, rank = Some 9\<rparr>"

definition down1 :: price_item where
  "down1 = \<lparr>symbol = Some ''xrp'', price = Some 2, change24h = Some (- 1), rank = Some 4\<rparr>"

definition up_half :: price_item where
  "up_half = \<lparr>symbol = Some ''ltc'', price = Some 80, change24h = Some (1 / 2), rank = None\<rparr>"

definition sample_headlines :: headline_feed where
  "sample_headlines = \<lparr>x_breaking = None, breaking = Some [headline], day = Some [headline],
     week = None, month = None, generated_at = Some ''1970-01-01T00:01:00Z''\<rparr>"

text \<open>
  A change so small that adding it to 1 is lost in the rounding, and one so large that
  adding it to itself overflows.
\<close>

definition tiny :: price_item where
  "tiny = \<lparr>symbol = Some ''dust'', price = Some 1, change24h = Some (1 / 2 ^ 60), rank = None\<rparr>"

definition huge :: price_item where
  "huge = \<lparr>symbol = Some ''moon'', price = Some 1, change24h = Some (2 ^ 1023), rank = None\<rparr>"

text \<open>A page that has the sentiment element and neither table body.\<close>

definition page_without_tables :: page where
  "page_without_tables =
     \<lparr>byId = [''sentiment-indicator'' \<mapsto> old_content], tickerWrap = None, console = []\<rparr>"

section \<open>Evaluation on numerals\<close>

lemma digit_char_eval:
  "digit_char 0 = CHR ''0''" "digit_char 1 = CHR ''1''" "digit_char 2 = CHR ''2''"
  "digit_char 3 = CHR ''3''" "digit_char 4 = CHR ''4''" "digit_char 5 = CHR ''5''"
  "digit_char 6 = CHR ''6''" "digit_char 7 = CHR ''7''" "digit_char 8 = CHR ''8''"
  "digit_char 9 = CHR ''9''" "digit_char (Suc 0) = CHR ''1''"
  by code_simp+

lemma floor_rat_numeral: "\<lfloor>numeral a / numeral b :: rat\<rfloor> = numeral a div numeral b"
  by (metis floor_divide_of_int_eq of_int_numeral)

section \<open>Relative time: the tiers\<close>

lemma tier_just_now: "tier ''just now'' = Some 0"
  by (simp add: tier_def)

lemma tier_unit:
  "tier (xs @ ''m ago'') = Some 1" "tier (xs @ ''h ago'') = Some 2" "tier (xs @ ''d ago'') = Some 3"
  by (simp_all add: tier_def)

lemma fmtTimeAgo_Num:
  assumes "newDate h s = Inr (Num t)"
  shows "fmtTimeAgo h s =
     (let mins = max 0 (dateNow h - t) div 60000
      in if mins < 1 then ''just now''
         else if mins < 60 then show_int mins @ ''m ago''
         else if mins div 60 < 24 then show_int (mins div 60) @ ''h ago''
         else show_int (mins div 60 div 24) @ ''d ago'')"
  using assms by (simp add: fmtTimeAgo_def Let_def)

lemma tier_fmtTimeAgo:
  assumes "newDate h s = Inr (Num t)"
  shows "tier (fmtTimeAgo h s) = Some (tier_of_minutes (max 0 (dateNow h - t) div 60000))"
  by (simp add: fmtTimeAgo_Num [OF assms] Let_def tier_of_minutes_def tier_unit tier_just_now)

lemma tier_of_minutes_mono: "m \<le> n \<Longrightarrow> tier_of_minutes m \<le> tier_of_minutes n"
proof -
  assume le: "m \<le> n"
  then have "m div 60 \<le> n div 60" by (simp add: zdiv_mono1)
  with le show ?thesis by (auto simp: tier_of_minutes_def)
qed

text \<open>
  The elapsed times the specification lists, with the label of each: the boundaries are
  decided by \<open><\<close>, so 59 seconds are still \<open>just now\<close>.
\<close>

lemma fmtTimeAgo_boundaries:
  "map (\<lambda>elapsed. fmtTimeAgo (sample_host elapsed) ''1970-01-01T00:00:00Z'')
       [0, 59000, 61000, 3599000, 3601000, 86399000, 86401000]
   = [''just now'', ''just now'', ''1m ago'', ''59m ago'', ''1h ago'', ''23h ago'', ''1d ago'']"
  by code_simp

text \<open>
  C2. For a timestamp that parses to the time \<open>t\<close>, the label is decided by the whole
  minutes of \<open>max 0 (now - t)\<close>: \<open>just now\<close> below one minute, the minutes below sixty, the
  whole hours below twenty-four hours, the whole days from there on. The tier of the label
  is monotone in the elapsed time.
\<close>

theorem fmtTimeAgo_tiers:
  assumes "newDate h s = Inr (Num t)" and "newDate h s' = Inr (Num t')"
  shows "(let mins = max 0 (dateNow h - t) div 60000
          in fmtTimeAgo h s =
             (if mins < 1 then ''just now''
              else if mins < 60 then show_int mins @ ''m ago''
              else if mins div 60 < 24 then show_int (mins div 60) @ ''h ago''
              else show_int (mins div 60 div 24) @ ''d ago''))
       \<and> (max 0 (dateNow h - t) \<le> max 0 (dateNow h - t') \<longrightarrow>
            (\<exists>i j. tier (fmtTimeAgo h s) = Some i \<and> tier (fmtTimeAgo h s') = Some j \<and> i \<le> j))"
proof (intro conjI impI)
  show "let mins = max 0 (dateNow h - t) div 60000
          in fmtTimeAgo h s =
             (if mins < 1 then ''just now''
              else if mins < 60 then show_int mins @ ''m ago''
              else if mins div 60 < 24 then show_int (mins div 60) @ ''h ago''
              else show_int (mins div 60 div 24) @ ''d ago'')"
    using fmtTimeAgo_Num [OF assms(1)] by (simp add: Let_def)
next
  assume "max 0 (dateNow h - t) \<le> max 0 (dateNow h - t')"
  then have "max 0 (dateNow h - t) div 60000 \<le> max 0 (dateNow h - t') div 60000"
    by (rule zdiv_mono1) simp
  then have "tier_of_minutes (max 0 (dateNow h - t) div 60000)
             \<le> tier_of_minutes (max 0 (dateNow h - t') div 60000)"
    by (rule tier_of_minutes_mono)
  then show "\<exists>i j. tier (fmtTimeAgo h s) = Some i \<and> tier (fmtTimeAgo h s') = Some j \<and> i \<le> j"
    by (simp add: tier_fmtTimeAgo [OF assms(1)] tier_fmtTimeAgo [OF assms(2)])
qed

theorem fmtTimeAgo_tiers_witness:
  "fmtTimeAgo (sample_host 3601000) ''1970-01-01T00:01:00Z'' = ''59m ago''
   \<and> (\<exists>i j. tier (fmtTimeAgo (sample_host 3601000) ''1970-01-01T00:01:00Z'') = Some i
            \<and> tier (fmtTimeAgo (sample_host 3601000) ''1970-01-01T00:00:00Z'') = Some j \<and> i \<le> j)"
proof -
  have a: "newDate (sample_host 3601000) ''1970-01-01T00:01:00Z'' = Inr (Num 60000)"
    by (simp add: sample_host_def)
  have b: "newDate (sample_host 3601000) ''1970-01-01T00:00:00Z'' = Inr (Num 0)"
    by (simp add: sample_host_def)
  have c: "dateNow (sample_host 3601000) = 3601000"
    by (simp add: sample_host_def)
  have d: "show_int 59 = ''59''" by code_simp
  from fmtTimeAgo_tiers [OF a b] show ?thesis
    by (auto simp add: c d Let_def)
qed

text \<open>
  C5. \<open>new Date\<close> does not throw on a string it cannot parse: it returns an Invalid Date,
  whose time is \<open>NaN\<close>. Every comparison with \<open>NaN\<close> is false, so the function falls through
  to the last tier and the label is \<open>NaNd ago\<close>; the \<open>catch\<close> that returns the empty
  string is not reached.
\<close>

theorem fmtTimeAgo_invalid_date:
  "newDate h s = Inr NaN \<Longrightarrow> fmtTimeAgo h s = ''NaNd ago''"
  by (simp add: fmtTimeAgo_def)

theorem fmtTimeAgo_invalid_date_witness:
  "fmtTimeAgo (sample_host 0) ''not a date'' = ''NaNd ago''"
  by (rule fmtTimeAgo_invalid_date) (simp add: sample_host_def)

text \<open>The empty string is what the function returns when the constructor throws.\<close>

lemma fmtTimeAgo_catch: "newDate h s = Inl e \<Longrightarrow> fmtTimeAgo h s = []"
  by (simp add: fmtTimeAgo_def)

section \<open>The renderers\<close>

lemma foldl_appendTo:
  "foldl (\<lambda>el x. appendTo el (f x)) el xs = el\<lparr>content := content el @ map f xs\<rparr>"
  by (induction xs arbitrary: el) (simp_all add: appendTo_def)

lemma list_entry_tree:
  "list_entry h it =
     Element ''li'' []
       [Element ''a'' [(''href'', link it), (''target'', ''_blank''), (''rel'', ''noopener'')]
          (text_nodes (title it)),
        Element ''span'' [(''class'', ''meta'')]
          (text_nodes (fmtTimeAgo h (published_at it)
             @ (case source it of None \<Rightarrow> [] | Some s \<Rightarrow> if s = [] then [] else '' '' @ bullet @ '' '' @ s)))]"
  by (simp add: list_entry_def createElement_def)

text \<open>
  C7. When the target is absent the page is unchanged. When it is present, its content
  after the call is one entry per item, in the order of the items, whatever it held before
  (none for no items); an entry is an anchor with the title as its text, then a span with
  the relative age and, for a source that is not empty, a bullet and the source.
\<close>

theorem renderList_entries:
  "(byId pg i = None \<longrightarrow> renderList h i items pg = pg)
   \<and> (\<forall>el. byId pg i = Some el \<longrightarrow>
         renderList h i items pg = put i (el\<lparr>content := map (list_entry h) (or_empty items)\<rparr>) pg
         \<and> length (map (list_entry h) (or_empty items)) = length (or_empty items))
   \<and> list_entry h it =
       Element ''li'' []
         [Element ''a'' [(''href'', link it), (''target'', ''_blank''), (''rel'', ''noopener'')]
            (text_nodes (title it)),
          Element ''span'' [(''class'', ''meta'')]
            (text_nodes (fmtTimeAgo h (published_at it)
               @ (case source it of None \<Rightarrow> [] | Some s \<Rightarrow> if s = [] then [] else '' '' @ bullet @ '' '' @ s)))]"
proof (intro conjI allI impI)
  show "renderList h i items pg = pg" if "byId pg i = None"
    using that by (simp add: renderList_def)
  show "renderList h i items pg = put i (el\<lparr>content := map (list_entry h) (or_empty items)\<rparr>) pg"
    if "byId pg i = Some el" for el
    using that by (simp add: renderList_def foldl_appendTo clear_def)
  show "length (map (list_entry h) (or_empty items)) = length (or_empty items)"
    by simp
  show "list_entry h it =
       Element ''li'' []
         [Element ''a'' [(''href'', link it), (''target'', ''_blank''), (''rel'', ''noopener'')]
            (text_nodes (title it)),
          Element ''span'' [(''class'', ''meta'')]
            (text_nodes (fmtTimeAgo h (published_at it)
               @ (case source it of None \<Rightarrow> [] | Some s \<Rightarrow> if s = [] then [] else '' '' @ bullet @ '' '' @ s)))]"
    by (rule list_entry_tree)
qed

theorem renderList_entries_witness:
  "renderList (sample_host 3601000) ''week'' (Some [headline]) sample_page = sample_page
   \<and> map_option content (byId (renderList (sample_host 3601000) ''day'' (Some [headline, headline]) sample_page) ''day'')
       = Some [list_entry (sample_host 3601000) headline, list_entry (sample_host 3601000) headline]
   \<and> map_option content (byId (renderList (sample_host 3601000) ''day'' None sample_page) ''day'') = Some []
   \<and> list_entry (sample_host 3601000) headline =
       Element ''li'' []
         [Element ''a'' [(''href'', ''https://example.org/a''), (''target'', ''_blank''), (''rel'', ''noopener'')]
            [TextNode ''Title''],
          Element ''span'' [(''class'', ''meta'')] [TextNode (''59m ago '' @ bullet @ '' Desk'')]]"
proof -
  have absent: "byId sample_page ''week'' = None"
    by (simp add: sample_page_def)
  have present: "byId sample_page ''day'' = Some old_content"
    by (simp add: sample_page_def)
  have label: "fmtTimeAgo (sample_host 3601000) ''1970-01-01T00:01:00Z'' = ''59m ago''"
    by code_simp
  note r = renderList_entries [of sample_page _ "sample_host 3601000" _ headline]
  from r [of "''week''" "Some [headline]"] absent
  have 1: "renderList (sample_host 3601000) ''week'' (Some [headline]) sample_page = sample_page"
    by simp
  from r [of "''day''" "Some [headline, headline]"] present
  have 2: "map_option content (byId (renderList (sample_host 3601000) ''day'' (Some [headline, headline]) sample_page) ''day'')
       = Some [list_entry (sample_host 3601000) headline, list_entry (sample_host 3601000) headline]"
    by (simp add: put_def)
  from r [of "''day''" None] present
  have 3: "map_option content (byId (renderList (sample_host 3601000) ''day'' None sample_page) ''day'') = Some []"
    by (simp add: put_def)
  from r [of "''day''" None]
  have 4: "list_entry (sample_host 3601000) headline =
       Element ''li'' []
         [Element ''a'' [(''href'', ''https://example.org/a''), (''target'', ''_blank''), (''rel'', ''noopener'')]
            [TextNode ''Title''],
          Element ''span'' [(''class'', ''meta'')] [TextNode (''59m ago '' @ bullet @ '' Desk'')]]"
    by (simp add: label headline_def text_nodes_def)
  from 1 2 3 4 show ?thesis by simp
qed

lemma table_row_tree:
  "table_row h colour c =
     Element ''tr'' []
       [Element ''td'' [] (text_nodes (toUpperCase h (or_blank (symbol c)))),
        Element ''td'' [] (text_nodes (case price c of None \<Rightarrow> [] | Some x \<Rightarrow> ''$'' @ numLocale h x)),
        (case change24h c of
           Some change \<Rightarrow> Element ''td'' [(''class'', colour change)] (text_nodes (toFixed2 h (Num change) @ ''%''))
         | None \<Rightarrow> Element ''td'' [] [TextNode em_dash])]"
proof -
  have "text_nodes em_dash = [TextNode em_dash]"
    by (simp add: text_nodes_def em_dash_def)
  then show ?thesis
    by (simp add: table_row_def createElement_def Let_def split: option.split del: toFixed2.simps)
qed

text \<open>
  C6. With the table body present, its content after the call is one row for each of the
  first \<open>min 50 (length prices)\<close> items, in their order. A row holds the symbol as
  \<open>toUpperCase\<close> returns it (the empty string for an absent symbol), the price as the
  locale formats it after a dollar sign, and the percentage cell:
  for a number, its two decimals and the class \<open>positive\<close> from zero on, \<open>negative\<close> below;
  for an absent change, an em dash and no class.
\<close>

theorem renderMarkets_rows:
  "byId pg ''market-body'' = Some tbody \<Longrightarrow>
     renderMarkets h prices pg
       = put ''market-body'' (tbody\<lparr>content := map (market_row h) (take 50 prices)\<rparr>) pg
     \<and> length (map (market_row h) (take 50 prices)) = min 50 (length prices)
     \<and> market_row h c =
         Element ''tr'' []
           [Element ''td'' [] (text_nodes (toUpperCase h (or_blank (symbol c)))),
            Element ''td'' [] (text_nodes (case price c of None \<Rightarrow> [] | Some x \<Rightarrow> ''$'' @ numLocale h x)),
            (case change24h c of
               Some change \<Rightarrow>
                 Element ''td'' [(''class'', if 0 \<le> change then ''positive'' else ''negative'')]
                   (text_nodes (toFixed2 h (Num change) @ ''%''))
             | None \<Rightarrow> Element ''td'' [] [TextNode em_dash])]"
proof (intro conjI)
  assume "byId pg ''market-body'' = Some tbody"
  then show "renderMarkets h prices pg
       = put ''market-body'' (tbody\<lparr>content := map (market_row h) (take 50 prices)\<rparr>) pg"
    by (simp add: renderMarkets_def foldl_appendTo clear_def)
  show "length (map (market_row h) (take 50 prices)) = min 50 (length prices)"
    by (simp add: min.commute)
  show "market_row h c =
         Element ''tr'' []
           [Element ''td'' [] (text_nodes (toUpperCase h (or_blank (symbol c)))),
            Element ''td'' [] (text_nodes (case price c of None \<Rightarrow> [] | Some x \<Rightarrow> ''$'' @ numLocale h x)),
            (case change24h c of
               Some change \<Rightarrow>
                 Element ''td'' [(''class'', if 0 \<le> change then ''positive'' else ''negative'')]
                   (text_nodes (toFixed2 h (Num change) @ ''%''))
             | None \<Rightarrow> Element ''td'' [] [TextNode em_dash])]"
    unfolding market_row_def by (rule table_row_tree)
qed

theorem renderMarkets_rows_witness:
  "map_option content (byId (renderMarkets (sample_host 0) [btc, eth] sample_page) ''market-body'')
     = Some [Element ''tr'' []
               [Element ''td'' [] [TextNode ''BTC''], Element ''td'' [] [TextNode ''$65000''],
                Element ''td'' [(''class'', ''positive'')] [TextNode ''1.00%'']],
             Element ''tr'' []
               [Element ''td'' [] [TextNode ''ETH''], Element ''td'' [] [],
                Element ''td'' [] [TextNode em_dash]]]"
proof -
  have present: "byId sample_page ''market-body'' = Some old_content"
    by (simp add: sample_page_def)
  have "ascii_upper ''btc'' = ''BTC''" "ascii_upper ''eth'' = ''ETH''"
    by code_simp+
  then have up: "toUpperCase (sample_host 0) ''btc'' = ''BTC''" "toUpperCase (sample_host 0) ''eth'' = ''ETH''"
    by (simp_all add: sample_host_def)
  have num: "numLocale (sample_host 0) 65000 = ''65000''"
    by (simp add: sample_host_def plain_number_def show_int_def show_nat.simps digit_char_eval)
  have pct: "toFixed2 (sample_host 0) (Num 1) = ''1.00''"
    by (simp add: fixed2_def Let_def floor_rat_numeral show_nat.simps digit_char_eval)
  from renderMarkets_rows [OF present, of "sample_host 0" "[btc, eth]" btc]
       renderMarkets_rows [OF present, of "sample_host 0" "[btc, eth]" eth]
  show ?thesis
    by (simp add: put_def btc_def eth_def up num pct text_nodes_def del: toFixed2.simps)
qed

section \<open>The ticker: the cloning loop\<close>

lemma js_or_pos: "0 < b \<Longrightarrow> 0 < js_or a b"
  by (simp add: js_or_def)

text \<open>
  The loop returns from every state: the distance to twice the container width shrinks in
  each iteration, because the container width is positive whenever the loop is entered and
  so is the width added.
\<close>

lemma clone_loop_returns:
  "\<exists>tick' totalW'. clone_loop h cw run tick totalW = Some (tick', totalW')
      \<and> cw * 2 \<le> totalW'
      \<and> length (content tick') \<le> length (content tick) + (cw * 2 - totalW)"
proof (induction "cw * 2 - totalW" arbitrary: tick totalW rule: less_induct)
  case less
  show ?case
  proof (cases "totalW < cw * 2")
    case False
    then show ?thesis
      by (subst clone_loop.simps) simp
  next
    case True
    define step where "step = js_or (scrollWidth h (length (content tick))) cw"
    from True have "0 < cw" by simp
    then have pos: "0 < step"
      unfolding step_def by (rule js_or_pos)
    with True have "cw * 2 - (totalW + step) < cw * 2 - totalW"
      by simp
    from less [OF this, of "appendTo tick run"]
    obtain tick' totalW' where
      res: "clone_loop h cw run (appendTo tick run) (totalW + step) = Some (tick', totalW')"
      and bound: "cw * 2 \<le> totalW'"
      and len: "length (content tick') \<le> length (content (appendTo tick run)) + (cw * 2 - (totalW + step))"
      by blast
    have unfold: "clone_loop h cw run tick totalW = clone_loop h cw run (appendTo tick run) (totalW + step)"
      using True by (subst clone_loop.simps) (simp add: step_def)
    from len pos True have "length (content tick') \<le> length (content tick) + (cw * 2 - totalW)"
      by (simp add: appendTo_def)
    with res bound unfold show ?thesis by simp
  qed
qed

text \<open>
  With every clone \<open>w > 0\<close> wide, the loop that has appended \<open>k\<close> clones, none of the
  counts below \<open>k\<close> being enough, stops at the least count \<open>n\<close> that is enough.
\<close>

lemma clone_loop_const:
  assumes w: "\<forall>i. scrollWidth h i = w" and pos: "0 < w"
  shows "\<forall>j<k. j * w < cw * 2 \<Longrightarrow>
     \<exists>n\<ge>k. clone_loop h cw run tick (k * w)
              = Some (tick\<lparr>content := content tick @ replicate (n - k) run\<rparr>, n * w)
          \<and> cw * 2 \<le> n * w \<and> (\<forall>j<n. j * w < cw * 2)"
proof (induction "cw * 2 - k * w" arbitrary: tick k rule: less_induct)
  case less
  show ?case
  proof (cases "k * w < cw * 2")
    case False
    then have "clone_loop h cw run tick (k * w) = Some (tick, k * w)"
      by (subst clone_loop.simps) simp
    with False less.prems show ?thesis
      by (intro exI [of _ k]) simp
  next
    case True
    have step: "js_or (scrollWidth h (length (content tick))) cw = w"
      using w pos by (simp add: js_or_def)
    have unfold: "clone_loop h cw run tick (k * w) = clone_loop h cw run (appendTo tick run) (Suc k * w)"
      using True by (subst clone_loop.simps) (simp add: step add.commute)
    from True pos have dec: "cw * 2 - Suc k * w < cw * 2 - k * w"
      by simp
    have inv: "\<forall>j<Suc k. j * w < cw * 2"
      using less.prems True by (auto simp: less_Suc_eq)
    from less.hyps [OF dec inv, of "appendTo tick run"]
    obtain n where n: "Suc k \<le> n"
      and res: "clone_loop h cw run (appendTo tick run) (Suc k * w)
                = Some ((appendTo tick run)\<lparr>content := content (appendTo tick run) @ replicate (n - Suc k) run\<rparr>, n * w)"
      and bound: "cw * 2 \<le> n * w" and least: "\<forall>j<n. j * w < cw * 2"
      by blast
    from n have "[run] @ replicate (n - Suc k) run = replicate (n - k) run"
      by (metis Suc_diff_le append_Cons append_Nil diff_Suc_Suc replicate_Suc)
    then have "(appendTo tick run)\<lparr>content := content (appendTo tick run) @ replicate (n - Suc k) run\<rparr>
               = tick\<lparr>content := content tick @ replicate (n - k) run\<rparr>"
      by (simp add: appendTo_def)
    with res unfold n bound least show ?thesis
      by (intro exI [of _ n]) simp
  qed
qed

lemma setupTicker_returns: "\<exists>pg'. setupTicker h prices pg = Some pg'"
proof (cases "tickerWrap pg")
  case None
  then show ?thesis by (simp add: setupTicker_def)
next
  case (Some w)
  show ?thesis
  proof (cases "byId pg ''ticker''")
    case None
    with Some show ?thesis by (simp add: setupTicker_def)
  next
    case (Some tick0)
    obtain tick' totalW' where
      "clone_loop h (js_or w 800) (one_run h prices) (clear tick0) 0 = Some (tick', totalW')"
      using clone_loop_returns [of h "js_or w 800" "one_run h prices" "clear tick0" 0] by blast
    with Some \<open>tickerWrap pg = Some w\<close> show ?thesis
      by (simp add: setupTicker_def Let_def)
  qed
qed

text \<open>
  C9. The container width the loop works with is positive (800 stands in for a measured
  0), and so is the width added by each iteration (the container width stands in for a
  clone measured as 0). The loop therefore returns from every state, with at least twice
  the container width accumulated and after at most as many iterations as pixels were
  missing; and \<open>setupTicker\<close> returns on every price list and every page.
\<close>

theorem setupTicker_terminates:
  "0 < js_or clientWidth 800
   \<and> (\<forall>i. 0 < js_or (scrollWidth h i) (js_or clientWidth 800))
   \<and> (\<exists>tick' totalW'.
         clone_loop h (js_or clientWidth 800) oneRun tick totalW = Some (tick', totalW')
         \<and> js_or clientWidth 800 * 2 \<le> totalW'
         \<and> length (content tick') \<le> length (content tick) + (js_or clientWidth 800 * 2 - totalW))
   \<and> (\<exists>pg'. setupTicker h prices pg = Some pg')"
proof (intro conjI allI)
  show cw: "0 < js_or clientWidth 800"
    by (simp add: js_or_def)
  show "0 < js_or (scrollWidth h i) (js_or clientWidth 800)" for i
    using cw by (rule js_or_pos)
  show "\<exists>tick' totalW'.
         clone_loop h (js_or clientWidth 800) oneRun tick totalW = Some (tick', totalW')
         \<and> js_or clientWidth 800 * 2 \<le> totalW'
         \<and> length (content tick') \<le> length (content tick) + (js_or clientWidth 800 * 2 - totalW)"
    by (rule clone_loop_returns)
  show "\<exists>pg'. setupTicker h prices pg = Some pg'"
    by (rule setupTicker_returns)
qed

theorem setupTicker_terminates_witness:
  "\<exists>pg'. setupTicker (sample_host 0) [btc, eth] sample_page = Some pg'"
  using setupTicker_terminates [of 500 "sample_host 0" "one_run (sample_host 0) [btc, eth]" old_content 0 "[btc, eth]" sample_page]
  by simp

text \<open>
  C1. For a price list that is not empty, both anchors present and every clone measured
  as the same positive width \<open>w\<close>, the track ends up holding \<open>n\<close> whole copies of the run
  and nothing else, the accumulated width \<open>n * w\<close> is at least twice the container width,
  and no smaller number of copies reaches that bound. The container width is the measured
  one, or 800 when it was measured as 0.
\<close>

theorem setupTicker_min_clones:
  assumes "prices \<noteq> []" and "tickerWrap pg = Some clientWidth" and "byId pg ''ticker'' = Some tick"
    and "\<forall>i. scrollWidth h i = w" and "0 < w"
  shows "\<exists>n. setupTicker h prices pg
               = Some (put ''ticker''
                   (setProperty (tick\<lparr>content := replicate n (one_run h prices)\<rparr>) ''--ticker-duration''
                      (show_nat (max 20 ((n * w + 50) div 100)) @ ''s''))
                   pg)
            \<and> js_or clientWidth 800 * 2 \<le> n * w
            \<and> (\<forall>m. js_or clientWidth 800 * 2 \<le> m * w \<longrightarrow> n \<le> m)"
proof -
  have "\<forall>j<(0::nat). j * w < js_or clientWidth 800 * 2" by simp
  from clone_loop_const [OF assms(4) assms(5) this, of "one_run h prices" "clear tick"]
  obtain n where
    res: "clone_loop h (js_or clientWidth 800) (one_run h prices) (clear tick) 0
          = Some (tick\<lparr>content := replicate n (one_run h prices)\<rparr>, n * w)"
    and bound: "js_or clientWidth 800 * 2 \<le> n * w"
    and least: "\<forall>j<n. j * w < js_or clientWidth 800 * 2"
    by (auto simp: clear_def)
  have "n \<le> m" if "js_or clientWidth 800 * 2 \<le> m * w" for m
    using least that by (meson not_le)
  with res bound assms(1-3) show ?thesis
    by (intro exI [of _ n]) (simp add: setupTicker_def Let_def)
qed

theorem setupTicker_min_clones_witness:
  "setupTicker (sample_host 0) [btc, eth] sample_page
     = Some (put ''ticker''
         (setProperty (old_content\<lparr>content := replicate 4 (one_run (sample_host 0) [btc, eth])\<rparr>)
            ''--ticker-duration'' ''20s'')
         sample_page)"
proof -
  have a: "[btc, eth] \<noteq> []" by simp
  have b: "tickerWrap sample_page = Some 500" by (simp add: sample_page_def)
  have c: "byId sample_page ''ticker'' = Some old_content" by (simp add: sample_page_def)
  have d: "\<forall>i. scrollWidth (sample_host 0) i = 300" by (simp add: sample_host_def)
  have e: "(0::nat) < 300" by simp
  from setupTicker_min_clones [OF a b c d e]
  obtain n where res: "setupTicker (sample_host 0) [btc, eth] sample_page
               = Some (put ''ticker''
                   (setProperty (old_content\<lparr>content := replicate n (one_run (sample_host 0) [btc, eth])\<rparr>)
                      ''--ticker-duration'' (show_nat (max 20 ((n * 300 + 50) div 100)) @ ''s''))
                   sample_page)"
    and bound: "js_or 500 800 * 2 \<le> n * 300"
    and least: "\<forall>m. js_or 500 800 * 2 \<le> m * 300 \<longrightarrow> n \<le> m"
    by blast
  from bound have "4 \<le> n" by (simp add: js_or_def)
  moreover from least [rule_format, of 4] have "n \<le> 4" by (simp add: js_or_def)
  ultimately have n: "n = 4" by simp
  have "show_nat (max 20 ((4 * 300 + 50) div 100)) = ''20''" by code_simp
  with res n show ?thesis by simp
qed

text \<open>
  C8, as the code has it. With both anchors present and no price, \<open>setupTicker\<close> empties
  the ticker track and changes nothing else: no run is built, no clone is appended and the
  duration property is not set.
\<close>

theorem setupTicker_empty:
  "tickerWrap pg = Some clientWidth \<Longrightarrow> byId pg ''ticker'' = Some tick \<Longrightarrow>
     setupTicker h [] pg = Some (put ''ticker'' (tick\<lparr>content := []\<rparr>) pg)"
  by (simp add: setupTicker_def clear_def)

theorem setupTicker_empty_witness:
  "map_option (map_option content \<circ> (\<lambda>pg. byId pg ''ticker'')) (setupTicker (sample_host 0) [] sample_page)
     = Some (Some [])"
proof -
  have "tickerWrap sample_page = Some 500" "byId sample_page ''ticker'' = Some old_content"
    by (simp_all add: sample_page_def)
  from setupTicker_empty [OF this, of "sample_host 0"] show ?thesis
    by (simp add: put_def)
qed

text \<open>
  C8, as stated, fails: on the sample page, whose ticker track holds old content, the call
  with no price does not give the page back.
\<close>

theorem setupTicker_empty_not_noop:
  "tickerWrap sample_page \<noteq> None \<and> byId sample_page ''ticker'' \<noteq> None
   \<and> setupTicker (sample_host 0) [] sample_page \<noteq> Some sample_page"
proof -
  have "byId (put ''ticker'' (old_content\<lparr>content := []\<rparr>) sample_page) ''ticker''
        \<noteq> byId sample_page ''ticker''"
    by (simp add: put_def sample_page_def old_content_def)
  then have "put ''ticker'' (old_content\<lparr>content := []\<rparr>) sample_page \<noteq> sample_page"
    by auto
  then show ?thesis
    by (simp add: setupTicker_def clear_def sample_page_def)
qed

section \<open>Rounding to a double\<close>

text \<open>What the rounding returns: the exponent it finds, the doubles it leaves alone, overflow.\<close>

lemma find_exp_eq:
  assumes "2 powi e \<le> a" and "a < 2 powi (e + 1)"
  shows "e \<le> e0 \<Longrightarrow> e0 - e \<le> int n \<Longrightarrow> find_exp n e0 a = e"
proof (induction n arbitrary: e0)
  case 0
  then show ?case by simp
next
  case (Suc n)
  show ?case
  proof (cases "2 powi e0 \<le> a")
    case True
    have "\<not> e < e0"
    proof
      assume "e < e0"
      then have "(2::rat) powi (e + 1) \<le> 2 powi e0"
        by (intro power_int_increasing) simp_all
      with True assms(2) show False by simp
    qed
    with Suc.prems True show ?thesis by simp
  next
    case False
    with assms(1) have "e \<noteq> e0" by auto
    with Suc.prems have "e \<le> e0 - 1" and "e0 - 1 - e \<le> int n" by simp_all
    then have "find_exp n (e0 - 1) a = e" by (rule Suc.IH)
    with False show ?thesis by simp
  qed
qed

lemma exponent_eq:
  "- 1022 \<le> e \<Longrightarrow> e \<le> 1023 \<Longrightarrow> 2 powi e \<le> a \<Longrightarrow> a < 2 powi (e + 1) \<Longrightarrow> exponent a = e"
  unfolding exponent_def by (rule find_exp_eq) simp_all

lemma round_even_down: "of_int n \<le> x \<Longrightarrow> x < of_int n + 1 / 2 \<Longrightarrow> round_even x = n"
proof -
  assume a: "of_int n \<le> x" and b: "x < of_int n + 1 / 2"
  then have "\<lfloor>x\<rfloor> = n" by linarith
  with b show ?thesis by (simp add: round_even_def Let_def)
qed

lemma round_even_of_int: "round_even (of_int n) = n"
  by (rule round_even_down) simp_all

lemma round_double_eval:
  assumes "- 1022 \<le> e" and "e \<le> 1023" and "2 powi e \<le> \<bar>q\<bar>" and "\<bar>q\<bar> < 2 powi (e + 1)"
    and "round_even (\<bar>q\<bar> / 2 powi (e - 52)) = n"
    and "of_int n * 2 powi (e - 52) < (2::rat) powi 1024"
  shows "round_double q
         = Num (if q < 0 then - (of_int n * 2 powi (e - 52)) else of_int n * 2 powi (e - 52))"
proof -
  have ex: "exponent \<bar>q\<bar> = e"
    using assms(1-4) by (rule exponent_eq)
  from assms(6) have fin: "\<not> (2::rat) powi 1024 \<le> of_int n * 2 powi (e - 52)"
    by (simp only: not_le)
  show ?thesis
    unfolding round_double_def Let_def ex assms(5) by (simp only: fin if_False)
qed

text \<open>A number with a 53 bit significand and an exponent in the normal range is a double.\<close>

lemma round_double_exact:
  assumes "- 1022 \<le> e" and "e \<le> 1023" and "2 ^ 52 \<le> \<bar>k\<bar>" and "\<bar>k\<bar> < 2 ^ 53"
    and "q = of_int k * 2 powi (e - 52)"
  shows "round_double q = Num q"
proof -
  have pos: "(0::rat) < 2 powi (e - 52)" by simp
  have abs: "\<bar>q\<bar> = of_int \<bar>k\<bar> * 2 powi (e - 52)"
    unfolding assms(5) by (simp add: abs_mult)
  have split: "(2::rat) powi e = 2 ^ 52 * 2 powi (e - 52)"
    using power_int_add [of "2::rat" 52 "e - 52"] by simp
  have split': "(2::rat) powi (e + 1) = 2 ^ 53 * 2 powi (e - 52)"
    using power_int_add [of "2::rat" 53 "e - 52"] by (simp add: add.commute)
  have lo: "(2::rat) powi e \<le> \<bar>q\<bar>"
    unfolding abs split using assms(3) pos
    by (intro mult_right_mono) (simp_all add: of_int_le_iff [of "2 ^ 52", symmetric] del: of_int_le_iff)
  have hi: "\<bar>q\<bar> < (2::rat) powi (e + 1)"
    unfolding abs split' using assms(4) pos
    by (intro mult_strict_right_mono) (simp_all add: of_int_less_iff [of _ "2 ^ 53", symmetric] del: of_int_less_iff)
  have quot: "\<bar>q\<bar> / 2 powi (e - 52) = of_int \<bar>k\<bar>"
    unfolding abs by simp
  have r: "round_even (\<bar>q\<bar> / 2 powi (e - 52)) = \<bar>k\<bar>"
    unfolding quot by (rule round_even_of_int)
  have "e + 1 \<le> 1024" using assms(2) by simp
  then have "(2::rat) powi (e + 1) \<le> 2 powi 1024"
    by (intro power_int_increasing) simp_all
  with hi have fin: "of_int \<bar>k\<bar> * 2 powi (e - 52) < (2::rat) powi 1024"
    unfolding abs by simp
  have "round_double q
         = Num (if q < 0 then - (of_int \<bar>k\<bar> * 2 powi (e - 52)) else of_int \<bar>k\<bar> * 2 powi (e - 52))"
    using assms(1,2) lo hi r fin by (rule round_double_eval)
  also have "\<dots> = Num q"
    unfolding abs [symmetric] by (simp add: abs_if)
  finally show ?thesis .
qed

lemma round_double_zero: "round_double 0 = Num 0"
  by (simp add: round_double_def round_even_def Let_def)

lemma find_exp_top: "0 < n \<Longrightarrow> 2 powi e \<le> a \<Longrightarrow> find_exp n e a = e"
  by (cases n) simp_all

lemma round_even_ge_floor: "\<lfloor>x\<rfloor> \<le> round_even x"
  by (simp add: round_even_def Let_def)

lemma round_double_overflow:
  assumes "2 powi 1024 \<le> q"
  shows "round_double q = PosInf"
proof -
  have "(0::rat) < 2 powi 1024" by simp
  with assms have q: "0 < q" by linarith
  have "(2::rat) powi 1023 \<le> 2 powi 1024"
    by (intro power_int_increasing) simp_all
  with assms have "2 powi 1023 \<le> q" by linarith
  then have ex: "exponent \<bar>q\<bar> = 1023"
    using q unfolding exponent_def by (intro find_exp_top) simp_all
  have split: "(2::rat) powi 1024 = 2 ^ 53 * 2 powi (1023 - 52)"
    using power_int_add [of "2::rat" 53 "1023 - 52"] by simp
  have pos: "(0::rat) < 2 powi (1023 - 52)" by simp
  from assms have "2 ^ 53 \<le> q / 2 powi (1023 - 52)"
    unfolding split using pos by (simp add: pos_le_divide_eq del: power_int_numeral power_int_add_numeral power_int_add_numeral2)
  then have "(2 ^ 53 :: int) \<le> \<lfloor>q / 2 powi (1023 - 52)\<rfloor>"
    by (simp add: le_floor_iff del: power_int_numeral)
  also have "\<dots> \<le> round_even (q / 2 powi (1023 - 52))"
    by (rule round_even_ge_floor)
  finally have "(2 ^ 53 :: rat) \<le> of_int (round_even (q / 2 powi (1023 - 52)))"
    by (metis of_int_le_iff of_int_numeral of_int_power)
  then have "2 ^ 53 * 2 powi (1023 - 52) \<le> of_int (round_even (q / 2 powi (1023 - 52))) * (2::rat) powi (1023 - 52)"
    using pos by (intro mult_right_mono) simp_all
  then have big: "2 powi 1024 \<le> of_int (round_even (\<bar>q\<bar> / 2 powi (1023 - 52))) * (2::rat) powi (1023 - 52)"
    unfolding split using q by simp
  have nn: "\<not> q < 0" using q by simp
  show ?thesis
    unfolding round_double_def Let_def ex by (simp only: big nn if_True if_False)
qed

section \<open>The sentiment line\<close>

text \<open>
  The loop of \<open>reduce\<close> adds the changes from the left, rounding after each addition.
  The sum is never \<open>NaN\<close>; when no partial sum needs rounding, it is the sum of the list.
\<close>

lemma round_double_not_NaN: "round_double q \<noteq> NaN"
  by (simp add: round_double_def Let_def)

lemma js_add_not_NaN: "s \<noteq> NaN \<Longrightarrow> js_add s b \<noteq> NaN"
  by (cases s) (simp_all add: round_double_not_NaN)

lemma foldl_js_add_not_NaN: "s \<noteq> NaN \<Longrightarrow> foldl (\<lambda>sum p. js_add sum (f p)) s ps \<noteq> NaN"
  by (induction ps arbitrary: s) (simp_all add: js_add_not_NaN)

lemma js_div_not_NaN: "s \<noteq> NaN \<Longrightarrow> b \<noteq> 0 \<Longrightarrow> js_div s b \<noteq> NaN"
  by (cases s) (simp_all add: round_double_not_NaN)

lemma avg_change_not_NaN: "ps \<noteq> [] \<Longrightarrow> avg_change ps \<noteq> NaN"
  unfolding avg_change_def by (intro js_div_not_NaN foldl_js_add_not_NaN) simp_all

lemma foldl_js_add_exact:
  assumes "\<forall>k\<le>length xs. is_double (a + sum_list (take k xs))"
  shows "foldl js_add (Num a) xs = Num (a + sum_list xs)"
  using assms
proof (induction xs arbitrary: a)
  case Nil
  then show ?case by simp
next
  case (Cons x xs)
  from Cons.prems [rule_format, of 1] have first: "js_add (Num a) x = Num (a + x)"
    by (simp add: is_double_def)
  have "is_double (a + x + sum_list (take k xs))" if "k \<le> length xs" for k
    using Cons.prems [rule_format, of "Suc k"] that by (simp add: add.assoc)
  then have "foldl js_add (Num (a + x)) xs = Num (a + x + sum_list xs)"
    by (intro Cons.IH) simp
  with first show ?case by (simp add: add.assoc)
qed

lemma foldl_change24h:
  "foldl (\<lambda>sum p. js_add sum (f p)) s ps = foldl js_add s (map f ps)"
  by (induction ps arbitrary: s) simp_all

lemma avg_change_exact:
  assumes "ps \<noteq> []"
    and "exact_mean (map (\<lambda>p. case change24h p of None \<Rightarrow> 0 | Some c \<Rightarrow> c) ps)"
  shows "avg_change ps
         = Num (sum_list (map (\<lambda>p. case change24h p of None \<Rightarrow> 0 | Some c \<Rightarrow> c) ps) / of_nat (length ps))"
proof -
  define xs where "xs = map (\<lambda>p. case change24h p of None \<Rightarrow> 0 | Some c \<Rightarrow> c) ps"
  from assms(2) have sums: "\<forall>k\<le>length xs. is_double (0 + sum_list (take k xs))"
    and quot: "is_double (sum_list xs / of_nat (length xs))"
    by (auto simp: exact_mean_def xs_def list_all_iff)
  from sums have exact: "foldl js_add (Num 0) xs = Num (0 + sum_list xs)"
    by (rule foldl_js_add_exact)
  have "foldl (\<lambda>sum p. js_add sum (case change24h p of None \<Rightarrow> 0 | Some c \<Rightarrow> c)) (Num 0) ps
        = foldl js_add (Num 0) xs"
    unfolding xs_def by (rule foldl_change24h)
  with exact
  have fold: "foldl (\<lambda>sum p. js_add sum (case change24h p of None \<Rightarrow> 0 | Some c \<Rightarrow> c)) (Num 0) ps = Num (sum_list xs)"
    by simp
  have len: "length xs = length ps"
    by (simp add: xs_def)
  have "avg_change ps = js_div (Num (sum_list xs)) (of_nat (length ps))"
    unfolding avg_change_def by (simp only: fold)
  also have "\<dots> = round_double (sum_list xs / of_nat (length ps))"
    using assms(1) by simp
  also have "\<dots> = Num (sum_list xs / of_nat (length ps))"
    using quot by (simp only: len is_double_def)
  finally show ?thesis
    unfolding xs_def .
qed

text \<open>The numbers of the examples are doubles; \<open>1 + 2^-60\<close> is not, and rounds to 1.\<close>

lemma is_double_zero: "is_double 0"
  by (simp add: is_double_def round_double_zero)

lemma is_double_samples:
  "is_double 1" "is_double 2" "is_double 4"
  "is_double (- 1)" "is_double (- (1 / 2))" "is_double (- (1 / 4))" "is_double (2 ^ 1023)"
  unfolding is_double_def
  by (rule round_double_exact [of 0 "2 ^ 52"], simp_all)
     (rule round_double_exact [of 1 "2 ^ 52"], simp_all,
      rule round_double_exact [of 2 "2 ^ 52"], simp_all,
      rule round_double_exact [of 0 "- (2 ^ 52)"], simp_all,
      rule round_double_exact [of "- 1" "- (2 ^ 52)"], simp_all,
      rule round_double_exact [of "- 2" "- (2 ^ 52)"], simp_all,
      rule round_double_exact [of 1023 "2 ^ 52"], simp_all)

lemma round_double_tiny: "round_double (1 + 1 / 2 ^ 60) = Num 1"
proof -
  have "round_even (\<bar>1 + 1 / 2 ^ 60\<bar> / 2 powi (0 - 52)) = 2 ^ 52"
    by (rule round_even_down) (simp_all add: power_int_minus_divide)
  then have "round_double (1 + 1 / 2 ^ 60)
       = Num (if (1 + 1 / 2 ^ 60 :: rat) < 0 then - (of_int (2 ^ 52) * 2 powi (0 - 52))
              else of_int (2 ^ 52) * 2 powi (0 - 52))"
    by (intro round_double_eval) simp_all
  then show ?thesis by simp
qed

text \<open>
  The text of \<open>toFixed(2)\<close>: the digits of the rounded hundredths, with the point before
  the last two of them, and the rounding is to the nearest hundredth.
\<close>

lemma show_nat_small: "n < 10 \<Longrightarrow> show_nat n = [digit_char n]"
  by (subst show_nat.simps) simp

lemma show_nat_step: "10 \<le> n \<Longrightarrow> show_nat n = show_nat (n div 10) @ [digit_char (n mod 10)]"
  by (subst show_nat.simps) simp

lemma show_nat_nonempty: "show_nat n \<noteq> []"
  by (subst show_nat.simps) simp

lemma fixed2_digits:
  "fixed2 x = (let n = nat \<lfloor>x * 100 + 1 / 2\<rfloor>
               in show_nat (n div 100) @ ''.'' @ [digit_char (n div 10 mod 10), digit_char (n mod 10)])"
proof -
  define n where "n = nat \<lfloor>x * 100 + 1 / 2\<rfloor>"
  consider "n < 10" | "10 \<le> n" "n < 100" | "100 \<le> n" by linarith
  then have "(let m = show_nat n;
                  m = (if length m \<le> 2 then replicate (3 - length m) (CHR ''0'') @ m else m)
              in take (length m - 2) m @ ''.'' @ drop (length m - 2) m)
             = show_nat (n div 100) @ ''.'' @ [digit_char (n div 10 mod 10), digit_char (n mod 10)]"
  proof cases
    case 1
    then show ?thesis
      by (simp add: show_nat_small digit_char_eval numeral_3_eq_3)
  next
    case 2
    then have "n div 10 < 10" by simp
    with 2 show ?thesis
      by (simp add: show_nat_step [of n] show_nat_small digit_char_eval)
  next
    case 3
    then have a: "10 \<le> n" and b: "10 \<le> n div 10" by simp_all
    have c: "n div 10 div 10 = n div 100" by (simp add: div_mult2_eq)
    have "show_nat n = show_nat (n div 100) @ [digit_char (n div 10 mod 10), digit_char (n mod 10)]"
      by (simp add: show_nat_step [OF a] show_nat_step [OF b] c)
    moreover have "0 < length (show_nat (n div 100))"
      using show_nat_nonempty [of "n div 100"] by simp
    ultimately show ?thesis by simp
  qed
  then show ?thesis
    by (simp add: fixed2_def n_def Let_def)
qed

lemma round_half_up_close:
  fixes y :: rat
  assumes "0 \<le> y"
  shows "\<bar>of_nat (nat \<lfloor>y + 1 / 2\<rfloor>) - y\<bar> \<le> 1 / 2"
proof -
  have "0 \<le> \<lfloor>y + 1 / 2\<rfloor>" using assms by simp
  then have "(of_nat (nat \<lfloor>y + 1 / 2\<rfloor>) :: rat) = of_int \<lfloor>y + 1 / 2\<rfloor>"
    by simp
  moreover have "of_int \<lfloor>y + 1 / 2\<rfloor> \<le> y + 1 / 2" by (rule of_int_floor_le)
  moreover have "y + 1 / 2 < of_int \<lfloor>y + 1 / 2\<rfloor> + 1" by linarith
  ultimately show ?thesis by linarith
qed

lemma toFixed2_two_decimals:
  assumes "\<bar>x\<bar> < 10 ^ 21"
  shows "\<exists>n. toFixed2 h (Num x)
              = (if x < 0 then ''-'' else []) @ show_nat (n div 100) @ ''.''
                  @ [digit_char (n div 10 mod 10), digit_char (n mod 10)]
            \<and> \<bar>of_nat n / 100 - \<bar>x\<bar>\<bar> \<le> 1 / 200"
proof -
  define n where "n = nat \<lfloor>\<bar>x\<bar> * 100 + 1 / 2\<rfloor>"
  have "\<bar>of_nat n - \<bar>x\<bar> * 100\<bar> \<le> 1 / 2"
    unfolding n_def by (rule round_half_up_close) simp
  then have "\<bar>(of_nat n - \<bar>x\<bar> * 100) / 100\<bar> \<le> (1 / 2) / 100"
    by (simp only: abs_divide) (simp add: divide_le_cancel)
  then have close: "\<bar>of_nat n / 100 - \<bar>x\<bar>\<bar> \<le> 1 / 200"
    by (simp add: diff_divide_distrib)
  have "toFixed2 h (Num x)
          = (if x < 0 then ''-'' else []) @ show_nat (n div 100) @ ''.''
              @ [digit_char (n div 10 mod 10), digit_char (n mod 10)]"
    using assms by (simp add: fixed2_digits n_def Let_def)
  with close show ?thesis by blast
qed

lemma sentiment_published:
  assumes "byId pg ''gainers-body'' = Some gainersBody" and "byId pg ''losers-body'' = Some losersBody"
    and "byId pg ''sentiment-indicator'' = Some sentimentEl" and "feed_prices prices = Some ps"
  shows "\<exists>pg'. renderGainersLosers h prices pg = (Normal, pg')
           \<and> map_option content (byId pg' ''sentiment-indicator'') = Some (text_nodes (sentiment_text h ps))"
  using assms by (simp add: renderGainersLosers_def Let_def put_def setText_def)

lemma sentiment_text_nonempty: "text_nodes (sentiment_text h ps) = [TextNode (sentiment_text h ps)]"
  by (simp add: text_nodes_def sentiment_text_def Let_def)


lemma avg_change_lost_in_rounding: "avg_change [up1, tiny, down1] = Num 0"
proof -
  have s1: "js_add (Num 0) 1 = Num 1"
    using is_double_samples(1) by (simp add: is_double_def)
  have s2: "js_add (Num 1) (1 / 2 ^ 60) = Num 1"
    unfolding js_add.simps by (rule round_double_tiny)
  have s3: "js_add (Num 1) (- 1) = Num 0"
    by (simp add: round_double_zero)
  have d: "js_div (Num 0) 3 = Num 0"
    by (simp add: round_double_zero)
  have "avg_change [up1, tiny, down1] = js_div (js_add (js_add (js_add (Num 0) 1) (1 / 2 ^ 60)) (- 1)) 3"
    by (simp add: avg_change_def up1_def tiny_def down1_def del: js_add.simps js_div.simps)
  also have "\<dots> = Num 0"
    by (simp only: s1 s2 s3 d)
  finally show ?thesis .
qed

text \<open>
  Two changes of \<open>2^1023\<close>: the sum overflows, the mean is an infinity and prints as such.
\<close>

lemma avg_change_overflow: "avg_change [huge, huge] = PosInf"
proof -
  have s1: "js_add (Num 0) (2 ^ 1023) = Num (2 ^ 1023)"
    using is_double_samples(7) by (simp add: is_double_def del: power_numeral)
  have s2: "js_add (Num (2 ^ 1023)) (2 ^ 1023) = PosInf"
    unfolding js_add.simps by (rule round_double_overflow) simp
  have "avg_change [huge, huge] = js_div (js_add (js_add (Num 0) (2 ^ 1023)) (2 ^ 1023)) 2"
    by (simp add: avg_change_def huge_def del: js_add.simps js_div.simps)
  also have "\<dots> = PosInf"
    by (simp only: s1 s2 js_div.simps)
  finally show ?thesis .
qed

lemma sentiment_text_overflow:
  "sentiment_text h [huge, huge] = ''Market Sentiment: Bullish (Avg 24h Change: Infinity%)''"
  by (simp add: sentiment_text_def avg_change_overflow)

text \<open>
  C3, as the code has it. With the two table bodies and the sentiment element present and
  a full price list that is not empty, the line is written from the mean as the program
  computes it in double arithmetic: the changes are added from the left, an absent value
  counting as 0, and the sum is divided by the length, each addition and the division
  rounded to a double. That mean is never \<open>NaN\<close>. The line says \<open>Bullish\<close> exactly when
  the computed mean is above 0, and \<open>Bearish\<close> otherwise, zero included. The computed mean
  is the arithmetic mean whenever no partial sum and not the quotient needs rounding. A
  finite computed mean below \<open>10^21\<close> is written with two decimals: its text is the sign,
  the digits of \<open>n div 100\<close>, a point and the two last digits of \<open>n\<close>, for an \<open>n\<close> with
  \<open>n / 100\<close> within half a hundredth of its absolute value.
\<close>

theorem sentiment_label_computed:
  assumes "byId pg ''gainers-body'' = Some gainersBody" and "byId pg ''losers-body'' = Some losersBody"
    and "byId pg ''sentiment-indicator'' = Some sentimentEl" and "feed_prices prices = Some ps"
    and "ps \<noteq> []"
  shows "avg_change ps \<noteq> NaN
       \<and> (\<exists>pg'. renderGainersLosers h prices pg = (Normal, pg')
             \<and> map_option content (byId pg' ''sentiment-indicator'')
                 = Some [TextNode (''Market Sentiment: ''
                                   @ (if js_gt0 (avg_change ps) then ''Bullish'' else ''Bearish'')
                                   @ '' (Avg 24h Change: '' @ toFixed2 h (avg_change ps) @ ''%)'')])
       \<and> (exact_mean (map (\<lambda>p. case change24h p of None \<Rightarrow> 0 | Some c \<Rightarrow> c) ps) \<longrightarrow>
            avg_change ps
            = Num (sum_list (map (\<lambda>p. case change24h p of None \<Rightarrow> 0 | Some c \<Rightarrow> c) ps) / of_nat (length ps)))
       \<and> (\<forall>m. avg_change ps = Num m \<longrightarrow>
              js_gt0 (avg_change ps) = (0 < m)
              \<and> (\<bar>m\<bar> < 10 ^ 21 \<longrightarrow>
                   (\<exists>n. toFixed2 h (avg_change ps)
                           = (if m < 0 then ''-'' else []) @ show_nat (n div 100) @ ''.''
                               @ [digit_char (n div 10 mod 10), digit_char (n mod 10)]
                         \<and> \<bar>of_nat n / 100 - \<bar>m\<bar>\<bar> \<le> 1 / 200)))"
proof (intro conjI allI impI)
  show "avg_change ps \<noteq> NaN"
    using assms(5) by (rule avg_change_not_NaN)
next
  have label: "sentiment_text h ps
             = ''Market Sentiment: '' @ (if js_gt0 (avg_change ps) then ''Bullish'' else ''Bearish'')
                 @ '' (Avg 24h Change: '' @ toFixed2 h (avg_change ps) @ ''%)''"
    by (simp add: sentiment_text_def Let_def)
  from sentiment_published [OF assms(1-4), of h]
  obtain pg' where run: "renderGainersLosers h prices pg = (Normal, pg')"
    and shown: "map_option content (byId pg' ''sentiment-indicator'') = Some (text_nodes (sentiment_text h ps))"
    by blast
  have "text_nodes (sentiment_text h ps) = [TextNode (sentiment_text h ps)]"
    by (rule sentiment_text_nonempty)
  with shown have "map_option content (byId pg' ''sentiment-indicator'')
                    = Some [TextNode (''Market Sentiment: ''
                                   @ (if js_gt0 (avg_change ps) then ''Bullish'' else ''Bearish'')
                                   @ '' (Avg 24h Change: '' @ toFixed2 h (avg_change ps) @ ''%)'')]"
    by (simp only: label)
  with run show "\<exists>pg'. renderGainersLosers h prices pg = (Normal, pg')
             \<and> map_option content (byId pg' ''sentiment-indicator'')
                 = Some [TextNode (''Market Sentiment: ''
                                   @ (if js_gt0 (avg_change ps) then ''Bullish'' else ''Bearish'')
                                   @ '' (Avg 24h Change: '' @ toFixed2 h (avg_change ps) @ ''%)'')]"
    by blast
next
  assume "exact_mean (map (\<lambda>p. case change24h p of None \<Rightarrow> 0 | Some c \<Rightarrow> c) ps)"
  with assms(5) show "avg_change ps
            = Num (sum_list (map (\<lambda>p. case change24h p of None \<Rightarrow> 0 | Some c \<Rightarrow> c) ps) / of_nat (length ps))"
    by (rule avg_change_exact)
next
  fix m assume "avg_change ps = Num m"
  then show "js_gt0 (avg_change ps) = (0 < m)" by simp
next
  fix m assume m: "avg_change ps = Num m" and "\<bar>m\<bar> < 10 ^ 21"
  then show "\<exists>n. toFixed2 h (avg_change ps)
                           = (if m < 0 then ''-'' else []) @ show_nat (n div 100) @ ''.''
                               @ [digit_char (n div 10 mod 10), digit_char (n mod 10)]
                         \<and> \<bar>of_nat n / 100 - \<bar>m\<bar>\<bar> \<le> 1 / 200"
    unfolding m by (intro toFixed2_two_decimals)
qed

theorem sentiment_label_computed_witness:
  "(\<exists>pg'. renderGainersLosers (sample_host 0) (PriceObject (Some [up1, up3]) None None) sample_page = (Normal, pg')
       \<and> map_option content (byId pg' ''sentiment-indicator'')
           = Some [TextNode ''Market Sentiment: Bullish (Avg 24h Change: 2.00%)''])
   \<and> (\<exists>pg'. renderGainersLosers (sample_host 0) (PriceObject (Some [down1, up_half]) None None) sample_page = (Normal, pg')
       \<and> map_option content (byId pg' ''sentiment-indicator'')
           = Some [TextNode ''Market Sentiment: Bearish (Avg 24h Change: -0.25%)''])"
proof -
  have g: "byId sample_page ''gainers-body'' = Some old_content"
    and l: "byId sample_page ''losers-body'' = Some old_content"
    and s: "byId sample_page ''sentiment-indicator'' = Some old_content"
    by (simp_all add: sample_page_def)
  have e1: "exact_mean (map (\<lambda>p. case change24h p of None \<Rightarrow> 0 | Some c \<Rightarrow> c) [up1, up3])"
    by (simp add: exact_mean_def up1_def up3_def is_double_zero is_double_samples upt_rec)
  have e2: "exact_mean (map (\<lambda>p. case change24h p of None \<Rightarrow> 0 | Some c \<Rightarrow> c) [down1, up_half])"
    by (simp add: exact_mean_def down1_def up_half_def is_double_zero is_double_samples upt_rec)
  have m1: "sum_list (map (\<lambda>p. case change24h p of None \<Rightarrow> 0 | Some c \<Rightarrow> c) [up1, up3]) / of_nat (length [up1, up3]) = 2"
    by (simp add: up1_def up3_def)
  have m2: "sum_list (map (\<lambda>p. case change24h p of None \<Rightarrow> 0 | Some c \<Rightarrow> c) [down1, up_half]) / of_nat (length [down1, up_half]) = - (1 / 4)"
    by (simp add: down1_def up_half_def)
  have f1: "toFixed2 (sample_host 0) (Num 2) = ''2.00''"
    by (simp add: fixed2_def Let_def floor_rat_numeral show_nat.simps digit_char_eval)
  have f2: "toFixed2 (sample_host 0) (Num (- (1 / 4))) = ''-0.25''"
    by (simp add: fixed2_def Let_def floor_rat_numeral show_nat.simps digit_char_eval)
  have p1: "feed_prices (PriceObject (Some [up1, up3]) None None) = Some [up1, up3]"
    and p2: "feed_prices (PriceObject (Some [down1, up_half]) None None) = Some [down1, up_half]"
    by simp_all
  have n1: "[up1, up3] \<noteq> []" and n2: "[down1, up_half] \<noteq> []" by simp_all
  note t1 = sentiment_label_computed [OF g l s p1 n1, of "sample_host 0"]
  from t1 e1 have a1: "avg_change [up1, up3] = Num 2"
    by (simp only: m1)
  from t1 have 1: "\<exists>pg'. renderGainersLosers (sample_host 0) (PriceObject (Some [up1, up3]) None None) sample_page = (Normal, pg')
       \<and> map_option content (byId pg' ''sentiment-indicator'')
           = Some [TextNode ''Market Sentiment: Bullish (Avg 24h Change: 2.00%)'']"
    unfolding a1 f1 by simp
  note t2 = sentiment_label_computed [OF g l s p2 n2, of "sample_host 0"]
  from t2 e2 have a2: "avg_change [down1, up_half] = Num (- (1 / 4))"
    by (simp only: m2)
  from t2 have 2: "\<exists>pg'. renderGainersLosers (sample_host 0) (PriceObject (Some [down1, up_half]) None None) sample_page = (Normal, pg')
       \<and> map_option content (byId pg' ''sentiment-indicator'')
           = Some [TextNode ''Market Sentiment: Bearish (Avg 24h Change: -0.25%)'']"
    unfolding a2 f2 by simp
  from 1 2 show ?thesis by simp
qed

text \<open>
  C3, as stated, fails: the label follows the computed mean, not the arithmetic mean. For
  the changes \<open>1\<close>, \<open>2^-60\<close> and \<open>-1\<close> the arithmetic mean is above 0, but \<open>1 + 2^-60\<close>
  rounds to 1, the computed sum is 0 and the line says \<open>Bearish\<close>.
\<close>

theorem sentiment_rounding_counterexample:
  "byId sample_page ''gainers-body'' \<noteq> None \<and> byId sample_page ''losers-body'' \<noteq> None
   \<and> map_option content
        (byId (snd (renderGainersLosers (sample_host 0) (PriceObject (Some [up1, tiny, down1]) None None) sample_page))
           ''sentiment-indicator'')
       = Some [TextNode ''Market Sentiment: Bearish (Avg 24h Change: 0.00%)'']
   \<and> 0 < sum_list (map (\<lambda>p. case change24h p of None \<Rightarrow> 0 | Some c \<Rightarrow> c) [up1, tiny, down1])
           / of_nat (length [up1, tiny, down1])"
proof -
  have g: "byId sample_page ''gainers-body'' = Some old_content"
    and l: "byId sample_page ''losers-body'' = Some old_content"
    and s: "byId sample_page ''sentiment-indicator'' = Some old_content"
    by (simp_all add: sample_page_def)
  have p: "feed_prices (PriceObject (Some [up1, tiny, down1]) None None) = Some [up1, tiny, down1]"
    by simp
  have f: "toFixed2 (sample_host 0) (Num 0) = ''0.00''"
    by (simp add: fixed2_def Let_def show_nat.simps digit_char_eval)
  have label: "sentiment_text (sample_host 0) [up1, tiny, down1]
          = ''Market Sentiment: Bearish (Avg 24h Change: 0.00%)''"
    unfolding sentiment_text_def Let_def avg_change_lost_in_rounding f by simp
  from sentiment_published [OF g l s p, of "sample_host 0"]
  have shown: "map_option content
        (byId (snd (renderGainersLosers (sample_host 0) (PriceObject (Some [up1, tiny, down1]) None None) sample_page))
           ''sentiment-indicator'')
       = Some [TextNode ''Market Sentiment: Bearish (Avg 24h Change: 0.00%)'']"
    using sentiment_text_nonempty [of "sample_host 0" "[up1, tiny, down1]"] by (auto simp: label)
  have mean: "0 < sum_list (map (\<lambda>p. case change24h p of None \<Rightarrow> 0 | Some c \<Rightarrow> c) [up1, tiny, down1])
           / of_nat (length [up1, tiny, down1])"
    by (simp add: up1_def tiny_def down1_def)
  from g l shown mean show ?thesis by simp
qed

text \<open>
  C10, as the code has it. With the two table bodies and the sentiment element present and
  an empty full price list, the sum is 0 and so is the length: the division is \<open>0 / 0\<close>,
  the mean is \<open>NaN\<close>, the comparison with 0 is false and the line published is
  \<open>Bearish\<close> with \<open>NaN%\<close>.
\<close>

theorem sentiment_empty_list:
  assumes "byId pg ''gainers-body'' = Some gainersBody" and "byId pg ''losers-body'' = Some losersBody"
    and "byId pg ''sentiment-indicator'' = Some sentimentEl" and "feed_prices prices = Some []"
  shows "avg_change [] = js_div (Num 0) 0 \<and> js_div (Num 0) 0 = NaN \<and> \<not> js_gt0 (avg_change [])
       \<and> (\<exists>pg'. renderGainersLosers h prices pg = (Normal, pg')
             \<and> map_option content (byId pg' ''sentiment-indicator'')
                 = Some [TextNode ''Market Sentiment: Bearish (Avg 24h Change: NaN%)''])"
proof -
  have avg: "avg_change [] = NaN"
    by (simp add: avg_change_def)
  have "sentiment_text h [] = ''Market Sentiment: Bearish (Avg 24h Change: NaN%)''"
    by (simp add: sentiment_text_def avg)
  with sentiment_published [OF assms, of h] sentiment_text_nonempty [of h "[]"]
  have "\<exists>pg'. renderGainersLosers h prices pg = (Normal, pg')
             \<and> map_option content (byId pg' ''sentiment-indicator'')
                 = Some [TextNode ''Market Sentiment: Bearish (Avg 24h Change: NaN%)'']"
    by simp
  then show ?thesis
    by (simp add: avg avg_change_def)
qed

theorem sentiment_empty_list_witness:
  "\<exists>pg'. renderGainersLosers (sample_host 0) (PriceObject (Some []) (Some [up1]) (Some [down1])) sample_page = (Normal, pg')
       \<and> map_option content (byId pg' ''sentiment-indicator'')
           = Some [TextNode ''Market Sentiment: Bearish (Avg 24h Change: NaN%)'']"
proof -
  have g: "byId sample_page ''gainers-body'' = Some old_content"
    and l: "byId sample_page ''losers-body'' = Some old_content"
    and s: "byId sample_page ''sentiment-indicator'' = Some old_content"
    by (simp_all add: sample_page_def)
  have p: "feed_prices (PriceObject (Some []) (Some [up1]) (Some [down1])) = Some []"
    by simp
  from sentiment_empty_list [OF g l s p, of "sample_host 0"] show ?thesis
    by simp
qed

text \<open>
  C10, as stated, fails: the sentiment element alone is not enough. On a page without the
  table bodies the function returns before the sentiment block, nothing is divided and
  nothing is published; the element keeps its old content.
\<close>

theorem sentiment_needs_tables:
  "byId page_without_tables ''sentiment-indicator'' = Some old_content
   \<and> feed_prices (PriceObject (Some []) None None) = Some []
   \<and> renderGainersLosers (sample_host 0) (PriceObject (Some []) None None) page_without_tables
       = (Normal, page_without_tables)
   \<and> content old_content \<noteq> [TextNode ''Market Sentiment: Bearish (Avg 24h Change: NaN%)'']"
  by (simp add: renderGainersLosers_def page_without_tables_def old_content_def)

section \<open>The refresh cycle: failures\<close>

text \<open>The cycle returns from every input, and never by throwing.\<close>

lemma catch_log_completes: "r = Some (c, pg) \<Longrightarrow> \<exists>pg'. catch_log r = Some (Normal, pg')"
  by (cases c) (simp_all add: catch_log_def)

lemma refreshAll_completes: "\<exists>pg'. refreshAll h fh fp pg = Some (Normal, pg')"
proof -
  have "\<exists>c pg'. refresh_try h fh fp pg = Some (c, pg')"
  proof (cases "promise_all (pricesFirst h) (loadJSON ''data/headlines.json'' fh) (loadJSON ''data/prices.json'' fp)")
    case (Inl e)
    then show ?thesis by (simp add: refresh_try_def)
  next
    case (Inr both)
    obtain headlines prices where both: "both = (headlines, prices)" by (cases both)
    obtain pg1 where
      "setupTicker h (case prices of PriceArray ps \<Rightarrow> ps | PriceObject ps gs ls \<Rightarrow> []) (renderLists h headlines pg) = Some pg1"
      using setupTicker_returns by blast
    with Inr both show ?thesis
      by (cases "setLastUpdated h (generated_at headlines)
                   (renderMarkets h (case prices of PriceArray ps \<Rightarrow> ps | PriceObject ps gs ls \<Rightarrow> []) pg1)")
         (simp add: refresh_try_def Let_def)
  qed
  then obtain c pg' where "refresh_try h fh fp pg = Some (c, pg')" by blast
  then show ?thesis
    unfolding refreshAll_def by (rule catch_log_completes)
qed

text \<open>
  A cycle whose two requests succeed, on the sample page: the list, the ticker and the
  market table are rendered and nothing is logged.
\<close>

lemma refreshAll_success_sample:
  "\<exists>pg'. refreshAll (sample_host 3601000) (Response True (Some sample_headlines))
            (Response True (Some (PriceArray [btc, eth]))) sample_page = Some (Normal, pg')
         \<and> map_option content (byId pg' ''day'') = Some [list_entry (sample_host 3601000) headline]
         \<and> map_option content (byId pg' ''ticker'')
             = Some (replicate 4 (one_run (sample_host 3601000) [btc, eth]))
         \<and> map_option content (byId pg' ''market-body'')
             = Some [market_row (sample_host 3601000) btc, market_row (sample_host 3601000) eth]
         \<and> console pg' = []"
proof -
  define h where "h = sample_host 3601000"
  define pg1 where "pg1 = put ''day'' (old_content\<lparr>content := [list_entry h headline]\<rparr>) sample_page"
  have lists: "renderLists h sample_headlines sample_page = pg1"
    by (simp add: renderLists_def renderList_def foldl_appendTo clear_def sample_headlines_def
        sample_page_def pg1_def put_def)
  have w: "\<forall>i. scrollWidth h i = 300" by (simp add: h_def sample_host_def)
  have "\<forall>j<(0::nat). j * 300 < js_or 500 800 * 2" by simp
  from clone_loop_const [OF w _ this, of "one_run h [btc, eth]" "clear old_content"]
  obtain n where
    res: "clone_loop h (js_or 500 800) (one_run h [btc, eth]) (clear old_content) 0
          = Some (old_content\<lparr>content := replicate n (one_run h [btc, eth])\<rparr>, n * 300)"
    and bound: "js_or 500 800 * 2 \<le> n * 300"
    and least: "\<forall>j<n. j * 300 < js_or 500 800 * 2"
    by (auto simp: clear_def)
  from bound have "4 \<le> n" by (simp add: js_or_def)
  moreover from least have "\<not> 4 < n" by (auto simp: js_or_def)
  ultimately have n: "n = 4" by simp
  define pg2 where "pg2 = put ''ticker''
      (setProperty (old_content\<lparr>content := replicate 4 (one_run h [btc, eth])\<rparr>) ''--ticker-duration'' ''20s'') pg1"
  have dur: "show_nat (max 20 ((4 * 300 + 50) div 100)) = ''20''" by code_simp
  have ticker: "setupTicker h [btc, eth] pg1 = Some pg2"
    using res n dur by (simp add: setupTicker_def pg1_def pg2_def put_def sample_page_def Let_def)
  define pg3 where "pg3 = put ''market-body'' (old_content\<lparr>content := [market_row h btc, market_row h eth]\<rparr>) pg2"
  have markets: "renderMarkets h [btc, eth] pg2 = pg3"
    by (simp add: renderMarkets_def foldl_appendTo clear_def pg3_def pg2_def pg1_def put_def sample_page_def)
  have updated: "setLastUpdated h (generated_at sample_headlines) pg3 = (Normal, pg3)"
    by (simp add: setLastUpdated_def pg3_def pg2_def pg1_def put_def sample_page_def)
  have "refreshAll h (Response True (Some sample_headlines)) (Response True (Some (PriceArray [btc, eth]))) sample_page
        = Some (Normal, pg3)"
    by (simp add: refreshAll_def refresh_try_def catch_log_def lists ticker markets updated)
  moreover have "map_option content (byId pg3 ''day'') = Some [list_entry h headline]"
    by (simp add: pg3_def pg2_def pg1_def put_def)
  moreover have "map_option content (byId pg3 ''ticker'') = Some (replicate 4 (one_run h [btc, eth]))"
    by (simp add: pg3_def pg2_def pg1_def put_def setProperty_def)
  moreover have "map_option content (byId pg3 ''market-body'') = Some [market_row h btc, market_row h eth]"
    by (simp add: pg3_def pg2_def pg1_def put_def)
  moreover have "console pg3 = []"
    by (simp add: pg3_def pg2_def pg1_def put_def sample_page_def)
  ultimately show ?thesis
    unfolding h_def by blast
qed

text \<open>
  C4. When either request fails, the \<open>await\<close> throws before any renderer has run (the
  page is the one the cycle started with), the \<open>catch\<close> logs the error and the cycle
  ends normally: the document is unchanged, only the console has one more entry. This holds
  for both variants of the cycle.
\<close>

theorem refreshAll_fetch_failure:
  assumes "fetch_failed fh \<or> fetch_failed fp"
  shows "\<exists>e. refresh_try h fh fp pg = Some (Throw e, pg)
            \<and> refreshAll h fh fp pg = Some (Normal, pg\<lparr>console := console pg @ [e]\<rparr>)
            \<and> refresh_try_split h fh fp pg = Some (Throw e, pg)
            \<and> refreshAll_split h fh fp pg = Some (Normal, pg\<lparr>console := console pg @ [e]\<rparr>)"
proof -
  have fails: "\<exists>e. loadJSON path f = Inl e" if "fetch_failed f" for path and f :: "'b fetched"
    using that by (cases f) (auto split: option.split)
  from assms fails [of fh "''data/headlines.json''"] fails [of fp "''data/prices.json''"]
  obtain e where
    "promise_all (pricesFirst h) (loadJSON ''data/headlines.json'' fh) (loadJSON ''data/prices.json'' fp) = Inl e"
    by (cases "loadJSON ''data/headlines.json'' fh"; cases "loadJSON ''data/prices.json'' fp") auto
  then show ?thesis
    by (intro exI [of _ e])
       (simp add: refresh_try_def refreshAll_def refresh_try_split_def refreshAll_split_def catch_log_def)
qed

theorem refreshAll_fetch_failure_witness:
  "refreshAll (sample_host 0) (Response False (Some sample_headlines)) (Response True (Some (PriceArray [btc]))) sample_page
     = Some (Normal, sample_page\<lparr>console := [LoadFailed ''Failed to load data/headlines.json'']\<rparr>)
   \<and> refreshAll (sample_host 0) (Response True (Some sample_headlines)) NoResponse sample_page
     = Some (Normal, sample_page\<lparr>console := [TransportError]\<rparr>)
   \<and> refreshAll (sample_host 0) (Response True (Some sample_headlines)) (Response True None) sample_page
     = Some (Normal, sample_page\<lparr>console := [MalformedJSON]\<rparr>)"
proof -
  have c: "console sample_page = []" by (simp add: sample_page_def)
  have a1: "fetch_failed (Response False (Some sample_headlines)) \<or> fetch_failed (Response True (Some (PriceArray [btc])))"
    by simp
  have a2: "fetch_failed (Response True (Some sample_headlines)) \<or> fetch_failed (NoResponse :: price_feed fetched)"
    by simp
  have a3: "fetch_failed (Response True (Some sample_headlines)) \<or> fetch_failed (Response True (None :: price_feed option))"
    by simp
  have t1: "refresh_try (sample_host 0) (Response False (Some sample_headlines)) (Response True (Some (PriceArray [btc]))) sample_page
            = Some (Throw (LoadFailed ''Failed to load data/headlines.json''), sample_page)"
    by (simp add: refresh_try_def)
  have t2: "refresh_try (sample_host 0) (Response True (Some sample_headlines)) NoResponse sample_page
            = Some (Throw TransportError, sample_page)"
    by (simp add: refresh_try_def)
  have t3: "refresh_try (sample_host 0) (Response True (Some sample_headlines)) (Response True None) sample_page
            = Some (Throw MalformedJSON, sample_page)"
    by (simp add: refresh_try_def)
  from refreshAll_fetch_failure [OF a1, of "sample_host 0" sample_page] t1 c
  have 1: "refreshAll (sample_host 0) (Response False (Some sample_headlines)) (Response True (Some (PriceArray [btc]))) sample_page
     = Some (Normal, sample_page\<lparr>console := [LoadFailed ''Failed to load data/headlines.json'']\<rparr>)"
    by auto
  from refreshAll_fetch_failure [OF a2, of "sample_host 0" sample_page] t2 c
  have 2: "refreshAll (sample_host 0) (Response True (Some sample_headlines)) NoResponse sample_page
     = Some (Normal, sample_page\<lparr>console := [TransportError]\<rparr>)"
    by auto
  from refreshAll_fetch_failure [OF a3, of "sample_host 0" sample_page] t3 c
  have 3: "refreshAll (sample_host 0) (Response True (Some sample_headlines)) (Response True None) sample_page
     = Some (Normal, sample_page\<lparr>console := [MalformedJSON]\<rparr>)"
    by auto
  from 1 2 3 show ?thesis by simp
qed

end
